(* ===== verification/Prelude.thy ===== *)
theory Prelude
  imports Complex_Main "HOL-Library.Word"
begin

text \<open>
  Shared vocabulary of the plant-doctor development: the collections of evaluation rules
  that the component theories fill, the exception-passing bind used to model JavaScript's
  \<open>throw\<close>/\<open>try\<close>, and list lemmas on the removal of one pending job from a queue.
\<close>

named_theorems js_simps "evaluation rules of the modelled JavaScript built-ins"
named_theorems handler_simps "unfolding rules of the modelled handlers and components"

type_synonym jsstring = string

subsection \<open>Exceptions as the left summand\<close>

text \<open>
  A JavaScript computation that may throw is a value of \<open>'e + 'a\<close>; \<open>sbind\<close> is the
  sequencing of two statements, the second one skipped when the first throws.
\<close>

fun sbind :: "'e + 'a \<Rightarrow> ('a \<Rightarrow> 'e + 'b) \<Rightarrow> 'e + 'b" where
  "sbind (Inl e) f = Inl e"
| "sbind (Inr a) f = f a"

lemma sbind_eq_Inr [simp]:
  "(sbind m f = Inr b) \<longleftrightarrow> (\<exists>a. m = Inr a \<and> f a = Inr b)"
  by (cases m) auto

lemma sbind_eq_Inl:
  "(sbind m f = Inl e) \<longleftrightarrow> (m = Inl e \<or> (\<exists>a. m = Inr a \<and> f a = Inl e))"
  by (cases m) auto

subsection \<open>Evaluation of rounding on literals\<close>

lemma floor_numeral_divide [simp]:
  "\<lfloor>(numeral a :: 'a :: floor_ceiling) / numeral b\<rfloor> = numeral a div numeral b"
  using floor_divide_of_int_eq [of "numeral a" "numeral b", where 'a = 'a] by simp

lemma floor_one_divide_numeral [simp]:
  "\<lfloor>(1 :: 'a :: floor_ceiling) / numeral b\<rfloor> = 1 div numeral b"
  using floor_divide_of_int_eq [of 1 "numeral b", where 'a = 'a] by simp

lemma replicate_numeral [simp]:
  "replicate (numeral n) x = x # replicate (pred_numeral n) x"
  by (simp add: numeral_eq_Suc)

subsection \<open>Removing one element of a queue\<close>

text \<open>
  Pending asynchronous work is a list; the environment completes the \<open>i\<close>-th entry,
  which leaves the others in their order.
\<close>

definition drop_at :: "nat \<Rightarrow> 'a list \<Rightarrow> 'a list" where
  "drop_at i xs = take i xs @ drop (Suc i) xs"

lemma length_drop_at [simp]:
  "i < length xs \<Longrightarrow> length (drop_at i xs) = length xs - 1"
  by (simp add: drop_at_def)

lemma filter_drop_at:
  assumes "i < length xs"
  shows "length (filter P (drop_at i xs)) =
           length (filter P xs) - (if P (xs ! i) then 1 else 0)"
proof -
  have xs: "xs = take i xs @ xs ! i # drop (Suc i) xs"
    using assms by (simp add: id_take_nth_drop)
  have "length (filter P xs) =
          length (filter P (take i xs)) + (if P (xs ! i) then 1 else 0)
          + length (filter P (drop (Suc i) xs))"
    by (subst xs) simp
  then show ?thesis by (simp add: drop_at_def)
qed

lemma set_drop_at_subset:
  "set (drop_at i xs) \<subseteq> set xs"
  by (auto simp: drop_at_def dest: in_set_takeD in_set_dropD)

lemma drop_at_append_last [simp]:
  "drop_at (length xs) (xs @ [x]) = xs"
  by (simp add: drop_at_def)

lemma nth_append_last [simp]:
  "(xs @ [x]) ! length xs = x"
  by simp


lemma list_all_drop_at [simp]:
  "list_all P xs \<Longrightarrow> list_all P (drop_at i xs)"
  using set_drop_at_subset [of i xs] by (auto simp: list_all_iff)

lemma filter_nth_pos:
  "i < length xs \<Longrightarrow> P (xs ! i) \<Longrightarrow> 0 < length (filter P xs)"
  by (auto simp: length_filter_conv_card card_gt_0_iff)


lemma filter_nth_two:
  assumes "i < length xs" "j < length xs" "i \<noteq> j" "P (xs ! i)" "P (xs ! j)"
  shows "1 < length (filter P xs)"
proof -
  have "card {i, j} \<le> card {k. k < length xs \<and> P (xs ! k)}"
    using assms by (intro card_mono) auto
  then show ?thesis using assms(3) by (simp add: length_filter_conv_card)
qed

lemma filter_drop_at_Nil [simp]:
  "filter P xs = [] \<Longrightarrow> filter P (drop_at i xs) = []"
  using set_drop_at_subset [of i xs] by (auto simp: filter_empty_conv)

end
