(* ===== verification/JsString.thy ===== *)
theory JsString
  imports Prelude
begin

text \<open>
  The string built-ins of JavaScript that the program calls: \<open>String.prototype.trim\<close>
  (the template literal of \<open>Index.tsx\<close>), \<open>String.prototype.startsWith\<close> (the MIME check of
  \<open>ImageUpload.tsx\<close>), and the decimal digit strings from which \<open>Number.prototype.toFixed\<close>
  and \<open>Number\<close> are built. Strings are byte lists (\<open>char list\<close>); JavaScript strings are
  UTF-16, so the non-ASCII white space of ECMA-262 (NBSP, U+2028, ...) is not modelled.
\<close>

subsection \<open>White space and trim\<close>

definition js_whitespace :: "char \<Rightarrow> bool" where
  "js_whitespace c \<longleftrightarrow>
     c \<in> set [CHR 0x09, CHR 0x0A, CHR 0x0B, CHR 0x0C, CHR 0x0D, CHR 0x20]"

definition js_trim :: "string \<Rightarrow> string" where
  "js_trim s = rev (dropWhile js_whitespace (rev (dropWhile js_whitespace s)))"

definition starts_with :: "string \<Rightarrow> string \<Rightarrow> bool" where
  "starts_with s p \<longleftrightarrow> take (length p) s = p"

subsection \<open>Decimal digits\<close>

definition digit_char :: "nat \<Rightarrow> char" where
  "digit_char d = ''0123456789'' ! d"

definition char_digit :: "char \<Rightarrow> nat option" where
  "char_digit c = (let k = of_char c in if 48 \<le> k \<and> k < (58::nat) then Some (k - 48) else None)"

text \<open>The shortest decimal representation of a natural number, \<open>0\<close> being \<open>''0''\<close>.\<close>

fun nat_digits :: "nat \<Rightarrow> string" where
  "nat_digits n =
     (if n < 10 then [digit_char n] else nat_digits (n div 10) @ [digit_char (n mod 10)])"

declare nat_digits.simps [simp del]

text \<open>The value of a string of decimal digits (\<open>None\<close> at the first non-digit).\<close>

fun digits_acc :: "nat \<Rightarrow> string \<Rightarrow> nat option" where
  "digits_acc acc [] = Some acc"
| "digits_acc acc (c # cs) =
     (case char_digit c of None \<Rightarrow> None | Some d \<Rightarrow> digits_acc (10 * acc + d) cs)"

definition digits_val :: "string \<Rightarrow> nat option" where
  "digits_val s = digits_acc 0 s"

definition is_digit :: "char \<Rightarrow> bool" where
  "is_digit c \<longleftrightarrow> char_digit c \<noteq> None"

subsection \<open>Lemmas\<close>

lemma digit_cases:
  assumes "d < (10::nat)"
  obtains "d = 0" | "d = 1" | "d = 2" | "d = 3" | "d = 4" | "d = 5" | "d = 6" | "d = 7"
    | "d = 8" | "d = 9"
  using assms that by (auto simp: less_Suc_eq numeral_eq_Suc)

lemma char_digit_digit_char [simp]:
  "d < 10 \<Longrightarrow> char_digit (digit_char d) = Some d"
  by (erule digit_cases) (simp_all add: char_digit_def digit_char_def)

lemma is_digit_digit_char [simp]:
  "d < 10 \<Longrightarrow> is_digit (digit_char d)"
  by (simp add: is_digit_def)

lemma digit_not_whitespace [simp]:
  "is_digit c \<Longrightarrow> \<not> js_whitespace c"
  by (auto simp: js_whitespace_def is_digit_def char_digit_def)

lemma nat_digits_not_Nil [simp]: "nat_digits n \<noteq> []"
  by (subst nat_digits.simps) simp

lemma nat_digits_digits [simp]: "c \<in> set (nat_digits n) \<Longrightarrow> is_digit c"
proof (induction n rule: nat_digits.induct)
  case (1 n)
  then show ?case
    by (cases "n < 10") (auto simp: nat_digits.simps [of n])
qed

lemma digits_acc_append:
  "digits_acc acc (xs @ ys) =
     (case digits_acc acc xs of None \<Rightarrow> None | Some a \<Rightarrow> digits_acc a ys)"
  by (induction acc xs rule: digits_acc.induct) (auto split: option.splits)

lemma digits_acc_shift:
  "digits_acc acc xs = map_option (\<lambda>v. acc * 10 ^ length xs + v) (digits_val xs)"
proof (induction xs arbitrary: acc)
  case Nil
  then show ?case by (simp add: digits_val_def)
next
  case (Cons c cs)
  show ?case
  proof (cases "char_digit c")
    case None
    then show ?thesis by (simp add: digits_val_def)
  next
    case (Some d)
    then have "digits_val (c # cs) = digits_acc d cs"
      by (simp add: digits_val_def)
    with Some Cons.IH [of "10 * acc + d"] Cons.IH [of d] show ?thesis
      by (cases "digits_val cs") (simp_all add: algebra_simps)
  qed
qed

lemma digits_val_append:
  "digits_val (xs @ ys) =
     (case digits_val xs of None \<Rightarrow> None
      | Some a \<Rightarrow> map_option (\<lambda>v. a * 10 ^ length ys + v) (digits_val ys))"
proof -
  have "digits_val (xs @ ys) =
          (case digits_val xs of None \<Rightarrow> None | Some a \<Rightarrow> digits_acc a ys)"
    by (simp add: digits_val_def digits_acc_append)
  then show ?thesis
    by (simp add: digits_acc_shift [of _ ys] split: option.splits)
qed

lemma digits_val_digit [simp]:
  "d < 10 \<Longrightarrow> digits_val [digit_char d] = Some d"
  by (simp add: digits_val_def)

theorem digits_val_nat_digits [simp]: "digits_val (nat_digits n) = Some n"
proof (induction n rule: nat_digits.induct)
  case (1 n)
  show ?case
  proof (cases "n < 10")
    case True
    then show ?thesis by (simp add: nat_digits.simps [of n])
  next
    case False
    with "1.IH" show ?thesis
      by (simp add: nat_digits.simps [of n] digits_val_append)
  qed
qed

lemma digits_val_replicate_zero [simp]:
  "digits_val (replicate k (digit_char 0)) = Some 0"
  by (induction k) (simp_all add: digits_val_def)

lemma digits_acc_all_digits:
  "digits_acc acc s = Some v \<Longrightarrow> c \<in> set s \<Longrightarrow> is_digit c"
  by (induction acc s rule: digits_acc.induct)
     (auto simp: is_digit_def split: option.splits)

lemma digits_val_all_digits:
  "digits_val s = Some v \<Longrightarrow> c \<in> set s \<Longrightarrow> is_digit c"
  unfolding digits_val_def by (rule digits_acc_all_digits)

lemma js_trim_strip:
  assumes "\<forall>c\<in>set a. js_whitespace c" "\<forall>c\<in>set b. js_whitespace c"
    "m \<noteq> []" "\<not> js_whitespace (hd m)" "\<not> js_whitespace (last m)"
  shows "js_trim (a @ m @ b) = m"
proof -
  obtain c m' where m: "m = c # m'" using assms(3) by (cases m) auto
  have front: "dropWhile js_whitespace (a @ m @ b) = m @ b"
    using assms(1,4) by (simp add: dropWhile_append m)
  obtain ys y where m2: "m = ys @ [y]" using assms(3) by (cases m rule: rev_cases) auto
  have "dropWhile js_whitespace (rev (m @ b)) = rev m"
    using assms(2,5) by (simp add: dropWhile_append m2)
  with front show ?thesis by (simp add: js_trim_def)
qed

end
