(* ===== verification/JsNumber.thy ===== *)
theory JsNumber
  imports JsString
begin

text \<open>
  JavaScript numbers and the three number built-ins the program reaches:
  \<open>*\<close> (\<open>data.confidence * 100\<close> in \<open>Index.tsx\<close>), \<open>Number.prototype.toFixed\<close>
  (the percentage of the report) and the ECMA-262 \<open>Number::toString\<close> and
  \<open>StringToNumber\<close> algorithms (template literals and the implicit coercion of \<open>*\<close>).
  A finite number is an exact rational: the rounding of IEEE-754 doubles is abstracted away,
  so a JSON number is the rational its decimal literal denotes and \<open>*\<close> is exact.
  Negative zero is identified with zero.
\<close>

datatype jsnum = Fin rat | NaN | PosInf | NegInf

subsection \<open>Multiplication (ECMA-262 Number::multiply)\<close>

fun num_sign :: "jsnum \<Rightarrow> int" where
  "num_sign (Fin x) = (if x < 0 then -1 else if x = 0 then 0 else 1)"
| "num_sign NaN = 0"
| "num_sign PosInf = 1"
| "num_sign NegInf = -1"

fun js_mul :: "jsnum \<Rightarrow> jsnum \<Rightarrow> jsnum" where
  "js_mul (Fin x) (Fin y) = Fin (x * y)"
| "js_mul a b =
     (if a = NaN \<or> b = NaN then NaN
      else if num_sign a * num_sign b = 0 then NaN
      else if num_sign a * num_sign b > 0 then PosInf else NegInf)"

fun js_neg :: "jsnum \<Rightarrow> jsnum" where
  "js_neg (Fin x) = Fin (- x)"
| "js_neg NaN = NaN"
| "js_neg PosInf = NegInf"
| "js_neg NegInf = PosInf"

subsection \<open>Number::toString (radix 10)\<close>

text \<open>
  ECMA-262 writes a positive finite \<open>x\<close> as \<open>s \<times> 10^(n - k)\<close> with \<open>s\<close> of \<open>k\<close> digits
  and \<open>k\<close> least. \<open>dec_scale x\<close> is the least number \<open>e\<close> of fractional digits that makes
  \<open>x \<cdot> 10^e\<close> an integer, searched upwards with fuel 400: the shortest decimal of a double
  has at most 17 significant digits and exponent at least -324, so it needs fewer than
  400 fractional digits, and for every such value the digits are exact. A rational the
  search does not reach (no double is one) is printed truncated to 400 digits.
\<close>

function scale_search :: "nat \<Rightarrow> nat \<Rightarrow> rat \<Rightarrow> nat" where
  "scale_search k e x =
     (if k = 0 \<or> of_int \<lfloor>x * 10 ^ e\<rfloor> = x * 10 ^ e then e else scale_search (k - 1) (Suc e) x)"
  by pat_completeness auto
termination
  by (relation "measure (\<lambda>(k, e, x). k)") auto

declare scale_search.simps [simp del]

definition dec_scale :: "rat \<Rightarrow> nat" where
  "dec_scale x = scale_search 400 0 x"

function pow_count :: "nat \<Rightarrow> nat \<Rightarrow> nat" where
  "pow_count p q = (if p \<le> 1 \<or> q = 0 \<or> q mod p \<noteq> 0 then 0 else Suc (pow_count p (q div p)))"
  by pat_completeness auto
termination
  by (relation "measure (\<lambda>(p, q). q)") auto

declare pow_count.simps [simp del]

definition exp_suffix :: "int \<Rightarrow> string" where
  "exp_suffix m = ''e'' @ (if m \<ge> 0 then ''+'' else ''-'') @ nat_digits (nat \<bar>m\<bar>)"

text \<open>Steps 6 to 10 of Number::toString, for the digits \<open>ds\<close> of \<open>s\<close> and the exponent \<open>n\<close>.\<close>

definition digits_to_string :: "string \<Rightarrow> int \<Rightarrow> string" where
  "digits_to_string ds n =
     (let k = int (length ds) in
      if k \<le> n \<and> n \<le> 21 then ds @ replicate (nat (n - k)) (CHR ''0'')
      else if 0 < n \<and> n \<le> 21 then take (nat n) ds @ ''.'' @ drop (nat n) ds
      else if -6 < n \<and> n \<le> 0 then ''0.'' @ replicate (nat (- n)) (CHR ''0'') @ ds
      else if k = 1 then ds @ exp_suffix (n - 1)
      else take 1 ds @ ''.'' @ drop 1 ds @ exp_suffix (n - 1))"

definition pos_to_string :: "rat \<Rightarrow> string" where
  "pos_to_string x =
     (let e = dec_scale x; d = nat \<lfloor>x * 10 ^ e\<rfloor>; t = pow_count 10 d;
          ds = nat_digits (d div 10 ^ t)
      in digits_to_string ds (int (length ds) + int t - int e))"

fun num_to_string :: "jsnum \<Rightarrow> string" where
  "num_to_string NaN = ''NaN''"
| "num_to_string PosInf = ''Infinity''"
| "num_to_string NegInf = ''-Infinity''"
| "num_to_string (Fin x) =
     (if x = 0 then ''0'' else if x < 0 then ''-'' @ pos_to_string (- x) else pos_to_string x)"

subsection \<open>Number.prototype.toFixed\<close>

text \<open>
  Step 9 of \<open>toFixed(f)\<close>: \<open>n\<close> is the integer with \<open>n / 10^f - x\<close> closest to zero,
  the larger one on a tie, so \<open>\<lfloor>x \<cdot> 10^f + 1/2\<rfloor>\<close> for \<open>x \<ge> 0\<close>; its digits are padded
  with zeros to at least \<open>f + 1\<close> and a point is put before the last \<open>f\<close>.
  The \<open>RangeError\<close> for \<open>f > 100\<close> is not modelled: the program calls \<open>toFixed(2)\<close>.
\<close>

definition round_fixed_nat :: "nat \<Rightarrow> rat \<Rightarrow> nat" where
  "round_fixed_nat f y = nat \<lfloor>y * 10 ^ f + 1 / 2\<rfloor>"

definition fixed_digits :: "nat \<Rightarrow> nat \<Rightarrow> string" where
  "fixed_digits f n =
     (let m = nat_digits n in
      if f = 0 then m
      else
        let m' = (if length m \<le> f then replicate (f + 1 - length m) (CHR ''0'') @ m else m);
            k = length m'
        in take (k - f) m' @ ''.'' @ drop (k - f) m')"

fun to_fixed :: "nat \<Rightarrow> jsnum \<Rightarrow> string" where
  "to_fixed f (Fin x) =
     (let s = (if x < 0 then ''-'' else ''''); y = \<bar>x\<bar> in
      if y \<ge> 10 ^ 21 then s @ num_to_string (Fin y)
      else s @ fixed_digits f (round_fixed_nat f y))"
| "to_fixed f v = num_to_string v"

subsection \<open>StringToNumber\<close>

text \<open>
  The grammar \<open>StringNumericLiteral\<close> of ECMA-262: white space around, then either a
  non-decimal integer (\<open>0x\<close>, \<open>0o\<close>, \<open>0b\<close>) or an optionally signed decimal literal or
  \<open>Infinity\<close>; an empty string is 0 and anything else \<open>NaN\<close>.
\<close>

definition digits_int :: "string \<Rightarrow> int option" where
  "digits_int ds = (if ds = [] then None else map_option int (digits_val ds))"

definition parse_exponent :: "string \<Rightarrow> int option" where
  "parse_exponent s =
     (case s of
        [] \<Rightarrow> None
      | c # ds \<Rightarrow>
          (if c = CHR ''+'' then digits_int ds
           else if c = CHR ''-'' then map_option uminus (digits_int ds)
           else digits_int s))"

definition parse_mantissa :: "string \<Rightarrow> rat option" where
  "parse_mantissa s =
     (let ip = takeWhile (\<lambda>c. c \<noteq> CHR ''.'') s; rest = dropWhile (\<lambda>c. c \<noteq> CHR ''.'') s in
      case rest of
        [] \<Rightarrow> (if ip = [] then None else map_option of_nat (digits_val ip))
      | _ # fp \<Rightarrow>
          (if ip = [] \<and> fp = [] then None
           else case (digits_val ip, digits_val fp) of
                  (Some a, Some b) \<Rightarrow> Some (of_nat a + of_nat b / 10 ^ length fp)
                | _ \<Rightarrow> None))"

definition is_exp_mark :: "char \<Rightarrow> bool" where
  "is_exp_mark c \<longleftrightarrow> c = CHR ''e'' \<or> c = CHR ''E''"

definition parse_unsigned_decimal :: "string \<Rightarrow> jsnum option" where
  "parse_unsigned_decimal s =
     (if s = ''Infinity'' then Some PosInf
      else
        let mant = takeWhile (\<lambda>c. \<not> is_exp_mark c) s;
            rest = dropWhile (\<lambda>c. \<not> is_exp_mark c) s
        in case rest of
             [] \<Rightarrow> map_option Fin (parse_mantissa mant)
           | _ # ex \<Rightarrow>
               (case (parse_mantissa mant, parse_exponent ex) of
                  (Some m, Some e) \<Rightarrow>
                    Some (Fin (if e \<ge> 0 then m * 10 ^ nat e else m / 10 ^ nat (- e)))
                | _ \<Rightarrow> None))"

definition parse_decimal_literal :: "string \<Rightarrow> jsnum option" where
  "parse_decimal_literal s =
     (case s of
        [] \<Rightarrow> parse_unsigned_decimal s
      | c # r \<Rightarrow>
          (if c = CHR ''+'' then parse_unsigned_decimal r
           else if c = CHR ''-'' then map_option js_neg (parse_unsigned_decimal r)
           else parse_unsigned_decimal s))"

definition radix_digit :: "nat \<Rightarrow> char \<Rightarrow> nat option" where
  "radix_digit r c =
     (let k = of_char c :: nat;
          d = (if 48 \<le> k \<and> k < 58 then Some (k - 48)
               else if 97 \<le> k \<and> k < 123 then Some (k - 87)
               else if 65 \<le> k \<and> k < 91 then Some (k - 55) else None)
      in case d of Some v \<Rightarrow> (if v < r then Some v else None) | None \<Rightarrow> None)"

fun radix_acc :: "nat \<Rightarrow> nat \<Rightarrow> string \<Rightarrow> nat option" where
  "radix_acc r acc [] = Some acc"
| "radix_acc r acc (c # cs) =
     (case radix_digit r c of None \<Rightarrow> None | Some d \<Rightarrow> radix_acc r (r * acc + d) cs)"

definition radix_of_mark :: "char \<Rightarrow> nat" where
  "radix_of_mark m =
     (if m = CHR ''x'' \<or> m = CHR ''X'' then 16
      else if m = CHR ''o'' \<or> m = CHR ''O'' then 8
      else if m = CHR ''b'' \<or> m = CHR ''B'' then 2 else 0)"

definition parse_non_decimal :: "string \<Rightarrow> jsnum option" where
  "parse_non_decimal s =
     (case s of
        z # m # ds \<Rightarrow>
          (if z = CHR ''0'' \<and> radix_of_mark m \<noteq> 0 \<and> ds \<noteq> []
           then map_option (\<lambda>v. Fin (of_nat v)) (radix_acc (radix_of_mark m) 0 ds) else None)
      | _ \<Rightarrow> None)"

definition string_to_number :: "string \<Rightarrow> jsnum" where
  "string_to_number s =
     (let t = js_trim s in
      if t = [] then Fin 0
      else case parse_non_decimal t of
             Some v \<Rightarrow> v
           | None \<Rightarrow> (case parse_decimal_literal t of Some v \<Rightarrow> v | None \<Rightarrow> NaN))"

subsection \<open>Rounding to a fixed number of digits\<close>

text \<open>The value \<open>toFixed\<close> denotes: rounding half away from zero to \<open>f\<close> digits.\<close>

definition round_fixed :: "nat \<Rightarrow> rat \<Rightarrow> rat" where
  "round_fixed f x =
     (if x < 0 then - of_nat (round_fixed_nat f (- x)) else of_nat (round_fixed_nat f x)) / 10 ^ f"

lemmas [js_simps] =
  nat_digits.simps digit_char_def round_fixed_nat_def fixed_digits_def pow_count.simps
  dec_scale_def scale_search.simps pos_to_string_def digits_to_string_def exp_suffix_def
  string_to_number_def js_trim_def js_whitespace_def parse_non_decimal_def
  parse_decimal_literal_def parse_unsigned_decimal_def parse_mantissa_def parse_exponent_def
  digits_int_def digits_val_def char_digit_def radix_digit_def radix_of_mark_def
  is_exp_mark_def Let_def

subsection \<open>The digits of toFixed\<close>

lemma digits_val_pad:
  "digits_val (replicate k (CHR ''0'') @ m) = digits_val m"
proof -
  have "digits_val (replicate k (CHR ''0'')) = Some 0"
    by (induction k) (simp_all add: digits_val_def char_digit_def)
  then show ?thesis
    by (cases "digits_val m") (simp_all add: digits_val_append)
qed

lemma fixed_digits_shape:
  assumes "0 < f"
  shows "\<exists>a b. fixed_digits f n = a @ ''.'' @ b \<and> a \<noteq> [] \<and> length b = f
           \<and> digits_val (a @ b) = Some n"
proof -
  define m where "m = nat_digits n"
  define m' where "m' = (if length m \<le> f then replicate (f + 1 - length m) (CHR ''0'') @ m else m)"
  have len: "f < length m'"
    by (simp add: m'_def)
  have val: "digits_val m' = Some n"
    by (simp add: m'_def m_def digits_val_pad)
  have "fixed_digits f n = take (length m' - f) m' @ ''.'' @ drop (length m' - f) m'"
    using assms by (simp add: fixed_digits_def Let_def m_def [symmetric] m'_def [symmetric])
  moreover have "take (length m' - f) m' \<noteq> []" and "length (drop (length m' - f) m') = f"
    using len by auto
  moreover have "digits_val (take (length m' - f) m' @ drop (length m' - f) m') = Some n"
    using val by simp
  ultimately show ?thesis by blast
qed

lemma digits_val_split:
  assumes "digits_val (a @ b) = Some n"
  shows "\<exists>p q. digits_val a = Some p \<and> digits_val b = Some q \<and> n = p * 10 ^ length b + q"
  using assms by (auto simp: digits_val_append split: option.splits)

subsection \<open>Reading a fixed-point string back\<close>

lemma js_trim_id:
  assumes "t \<noteq> []" "\<not> js_whitespace (hd t)" "\<not> js_whitespace (last t)"
  shows "js_trim t = t"
proof -
  have front: "dropWhile js_whitespace t = t"
    using assms(1,2) by (cases t) auto
  obtain ys y where t: "t = ys @ [y]"
    using assms(1) by (cases t rule: rev_cases) auto
  have "dropWhile js_whitespace (rev t) = rev t"
    using assms(3) by (simp add: t)
  with front show ?thesis by (simp add: js_trim_def)
qed

lemma point_not_digit [simp]: "\<not> is_digit CHR ''.''"
  by (simp add: is_digit_def char_digit_def)

lemma digit_not_exp_mark [simp]: "is_digit c \<Longrightarrow> \<not> is_exp_mark c"
  by (auto simp: is_digit_def char_digit_def is_exp_mark_def)

lemma radix_marks_not_digits:
  "\<not> is_digit CHR ''x''" "\<not> is_digit CHR ''X''" "\<not> is_digit CHR ''o''"
  "\<not> is_digit CHR ''O''" "\<not> is_digit CHR ''b''" "\<not> is_digit CHR ''B''"
  by (simp_all add: is_digit_def char_digit_def)

lemma digit_not_radix_mark: "is_digit m \<Longrightarrow> radix_of_mark m = 0"
  unfolding radix_of_mark_def using radix_marks_not_digits by auto

lemma parse_non_decimal_None:
  assumes "\<And>z m ds. t = z # m # ds \<Longrightarrow> z \<noteq> CHR ''0'' \<or> m = CHR ''.'' \<or> is_digit m"
  shows "parse_non_decimal t = None"
proof (cases "\<exists>z m ds. t = z # m # ds")
  case True
  then obtain z m ds where t: "t = z # m # ds" by blast
  have "radix_of_mark CHR ''.'' = 0" by (simp add: radix_of_mark_def)
  with assms [OF t] digit_not_radix_mark [of m] have "z \<noteq> CHR ''0'' \<or> radix_of_mark m = 0"
    by auto
  then show ?thesis by (auto simp: parse_non_decimal_def t)
next
  case False
  then show ?thesis by (auto simp: parse_non_decimal_def split: list.splits)
qed

lemma parse_mantissa_point:
  assumes "a \<noteq> []" "digits_val a = Some p" "digits_val b = Some q"
  shows "parse_mantissa (a @ CHR ''.'' # b) = Some (of_nat p + of_nat q / 10 ^ length b)"
proof -
  have "\<forall>c\<in>set a. c \<noteq> CHR ''.''"
    using digits_val_all_digits [OF assms(2)] point_not_digit by blast
  then have "takeWhile (\<lambda>c. c \<noteq> CHR ''.'') (a @ CHR ''.'' # b) = a"
    and "dropWhile (\<lambda>c. c \<noteq> CHR ''.'') (a @ CHR ''.'' # b) = CHR ''.'' # b"
    by (simp_all add: takeWhile_append2 dropWhile_append2)
  with assms show ?thesis by (simp add: parse_mantissa_def)
qed

lemma parse_unsigned_point:
  assumes "a \<noteq> []" "digits_val a = Some p" "digits_val b = Some q"
  shows "parse_unsigned_decimal (a @ CHR ''.'' # b) =
           Some (Fin (of_nat p + of_nat q / 10 ^ length b))"
proof -
  let ?t = "a @ CHR ''.'' # b"
  have chars: "\<forall>c\<in>set ?t. is_digit c \<or> c = CHR ''.''"
    using digits_val_all_digits [OF assms(2)] digits_val_all_digits [OF assms(3)] by auto
  have "\<forall>c\<in>set ?t. \<not> is_exp_mark c"
  proof
    fix c assume "c \<in> set ?t"
    with chars have "is_digit c \<or> c = CHR ''.''" by blast
    then show "\<not> is_exp_mark c"
      by (elim disjE) (simp, simp add: is_exp_mark_def)
  qed
  then have tw: "takeWhile (\<lambda>c. \<not> is_exp_mark c) ?t = ?t"
    and dw: "dropWhile (\<lambda>c. \<not> is_exp_mark c) ?t = []"
    by (simp_all add: takeWhile_eq_all_conv dropWhile_eq_Nil_conv)
  have "CHR ''.'' \<in> set ?t" by simp
  moreover have "CHR ''.'' \<notin> set ''Infinity''" by simp
  ultimately have notinf: "?t \<noteq> ''Infinity''" by metis
  show ?thesis
    unfolding parse_unsigned_decimal_def Let_def tw dw
    using notinf parse_mantissa_point [OF assms] by simp
qed

lemma string_to_number_point:
  assumes "a \<noteq> []" "b \<noteq> []" "digits_val a = Some p" "digits_val b = Some q"
  shows "string_to_number (a @ ''.'' @ b) = Fin (of_nat p + of_nat q / 10 ^ length b)"
    and "string_to_number (''-'' @ a @ ''.'' @ b) = Fin (- (of_nat p + of_nat q / 10 ^ length b))"
proof -
  have da: "\<forall>c\<in>set a. is_digit c" and db: "\<forall>c\<in>set b. is_digit c"
    using digits_val_all_digits assms(3,4) by blast+
  obtain c0 a' where a: "a = c0 # a'"
    using assms(1) by (cases a) auto
  have last: "\<not> js_whitespace (last b)"
    using db assms(2) by simp
  have c0: "is_digit c0" using da a by simp
  then have c0_sign: "c0 \<noteq> CHR ''+''" "c0 \<noteq> CHR ''-''"
    by (auto simp: is_digit_def char_digit_def)
  have trim1: "js_trim (a @ ''.'' @ b) = a @ ''.'' @ b"
    using c0 last assms(2) by (intro js_trim_id) (simp_all add: a)
  have trim2: "js_trim (''-'' @ a @ ''.'' @ b) = ''-'' @ a @ ''.'' @ b"
    using last assms(2) by (intro js_trim_id) (simp_all add: js_whitespace_def)
  have nd1: "parse_non_decimal (a @ ''.'' @ b) = None"
  proof (rule parse_non_decimal_None)
    fix z m ds assume eq: "a @ ''.'' @ b = z # m # ds"
    show "z \<noteq> CHR ''0'' \<or> m = CHR ''.'' \<or> is_digit m"
      using eq da by (cases a') (auto simp: a)
  qed
  have nd2: "parse_non_decimal (''-'' @ a @ ''.'' @ b) = None"
    by (rule parse_non_decimal_None) simp
  have u: "parse_unsigned_decimal (a @ CHR ''.'' # b) =
             Some (Fin (of_nat p + of_nat q / 10 ^ length b))"
    by (rule parse_unsigned_point [OF assms(1,3,4)])
  show "string_to_number (a @ ''.'' @ b) = Fin (of_nat p + of_nat q / 10 ^ length b)"
    using trim1 nd1 u c0_sign
    by (simp add: string_to_number_def parse_decimal_literal_def a split: list.splits)
  show "string_to_number (''-'' @ a @ ''.'' @ b) = Fin (- (of_nat p + of_nat q / 10 ^ length b))"
    using trim2 nd2 u by (simp add: string_to_number_def parse_decimal_literal_def)
qed

subsection \<open>toFixed: round trip and rounding error\<close>

lemma to_fixed_below:
  "\<bar>x\<bar> < 10 ^ 21 \<Longrightarrow>
     to_fixed f (Fin x) = (if x < 0 then ''-'' else '''') @ fixed_digits f (round_fixed_nat f \<bar>x\<bar>)"
  by (simp add: Let_def)

text \<open>
  Reading back what \<open>toFixed(f)\<close> prints (\<open>Number(x.toFixed(f))\<close>) gives \<open>x\<close>
  rounded half away from zero to \<open>f\<close> decimals, for every \<open>f > 0\<close> and \<open>|x| < 10^21\<close>.
\<close>

theorem to_fixed_roundtrip:
  assumes "0 < f" "\<bar>x\<bar> < 10 ^ 21"
  shows "string_to_number (to_fixed f (Fin x)) = Fin (round_fixed f x)"
proof -
  obtain a b where fd: "fixed_digits f (round_fixed_nat f \<bar>x\<bar>) = a @ ''.'' @ b" "a \<noteq> []"
      "length b = f" "digits_val (a @ b) = Some (round_fixed_nat f \<bar>x\<bar>)"
    using fixed_digits_shape [OF assms(1)] by blast
  obtain p q where pq: "digits_val a = Some p" "digits_val b = Some q"
      "round_fixed_nat f \<bar>x\<bar> = p * 10 ^ length b + q"
    using digits_val_split [OF fd(4)] by blast
  have b: "b \<noteq> []" using fd(3) assms(1) by auto
  have val: "of_nat p + of_nat q / 10 ^ length b = (of_nat (round_fixed_nat f \<bar>x\<bar>) :: rat) / 10 ^ f"
    using pq(3) fd(3) by (simp add: field_simps)
  have tf: "to_fixed f (Fin x) = (if x < 0 then ''-'' else '''') @ a @ ''.'' @ b"
    using to_fixed_below [OF assms(2)] fd(1) by simp
  show ?thesis
  proof (cases "x < 0")
    case True
    then show ?thesis
      using tf string_to_number_point(2) [OF fd(2) b pq(1,2)] val
      by (simp add: round_fixed_def abs_of_neg)
  next
    case False
    then show ?thesis
      using tf string_to_number_point(1) [OF fd(2) b pq(1,2)] val
      by (simp add: round_fixed_def abs_of_nonneg)
  qed
qed

lemma round_fixed_nat_close:
  assumes "0 \<le> y"
  shows "\<bar>of_nat (round_fixed_nat f y) - y * 10 ^ f\<bar> \<le> 1 / 2"
proof -
  define z where "z = y * 10 ^ f + 1 / 2"
  have "0 \<le> z" using assms by (simp add: z_def)
  then have n: "(of_nat (round_fixed_nat f y) :: rat) = of_int \<lfloor>z\<rfloor>"
    by (simp add: round_fixed_nat_def z_def [symmetric])
  have lo: "of_int \<lfloor>z\<rfloor> \<le> z" by simp
  have hi: "z < of_int \<lfloor>z\<rfloor> + 1" using floor_correct [of z] by simp
  have up: "of_int \<lfloor>z\<rfloor> - y * 10 ^ f \<le> 1 / 2"
    using lo unfolding z_def by linarith
  have down: "- (of_int \<lfloor>z\<rfloor> - y * 10 ^ f) \<le> 1 / 2"
    using hi unfolding z_def by linarith
  show ?thesis
    unfolding n by (rule abs_leI [OF up down])
qed

lemma round_fixed_nat_error:
  assumes "0 \<le> y"
  shows "\<bar>of_nat (round_fixed_nat f y) / 10 ^ f - y\<bar> \<le> 1 / (2 * 10 ^ f)"
proof -
  have "of_nat (round_fixed_nat f y) / 10 ^ f - y = (of_nat (round_fixed_nat f y) - y * 10 ^ f) / 10 ^ f"
    by (simp add: field_simps)
  then have "\<bar>of_nat (round_fixed_nat f y) / 10 ^ f - y\<bar> =
               \<bar>of_nat (round_fixed_nat f y) - y * 10 ^ f\<bar> / 10 ^ f"
    by simp
  also have "\<dots> \<le> (1 / 2) / 10 ^ f"
    by (rule divide_right_mono [OF round_fixed_nat_close [OF assms]]) simp
  finally show ?thesis by simp
qed

text \<open>The value \<open>toFixed(f)\<close> denotes is within half a unit of the last printed digit.\<close>

theorem round_fixed_error: "\<bar>round_fixed f x - x\<bar> \<le> 1 / (2 * 10 ^ f)"
proof (cases "x < 0")
  case True
  have "\<bar>round_fixed f x - x\<bar> = \<bar>of_nat (round_fixed_nat f (- x)) / 10 ^ f - (- x)\<bar>"
    using True by (simp add: round_fixed_def abs_minus_commute)
  also have "\<dots> \<le> 1 / (2 * 10 ^ f)"
    using True by (intro round_fixed_nat_error) simp
  finally show ?thesis .
next
  case False
  then show ?thesis
    using round_fixed_nat_error [of x f] by (simp add: round_fixed_def)
qed

end
