(* ===== verification/JsValue.thy ===== *)
theory JsValue
  imports JsNumber
begin

text \<open>
  JavaScript values as the program sees them: the results of \<open>JSON.parse\<close> and of
  \<open>Deno.env.get\<close>, and the built-in operations the handlers apply to them: property
  access (\<open>data.prediction\<close>, \<open>data.choices[0]\<close>), destructuring, truthiness (\<open>||\<close>,
  \<open>!\<close>, \<open>&&\<close>), \<open>ToString\<close> (template literals, \<open>new Error(x)\<close>) and \<open>ToNumber\<close>
  (\<open>*\<close>). Exceptions are values of \<open>js_exn\<close>; their messages are those of V8, the engine of
  both Chrome and Deno. Functions and prototypes are not values of this model: a property
  that JavaScript would find on a prototype (\<open>data.toString\<close>) reads as \<open>undefined\<close>.
\<close>

datatype jsval =
    JUndef
  | JNull
  | JBool bool
  | JNum jsnum
  | JStr string
  | JArr "jsval list"
  | JObj "(string \<times> jsval) list"

datatype err_kind = PlainError | TypeError | SyntaxError

datatype js_exn = JsError err_kind string | Thrown jsval

subsection \<open>Truthiness\<close>

fun js_truthy :: "jsval \<Rightarrow> bool" where
  "js_truthy JUndef = False"
| "js_truthy JNull = False"
| "js_truthy (JBool b) = b"
| "js_truthy (JNum (Fin x)) = (x \<noteq> 0)"
| "js_truthy (JNum NaN) = False"
| "js_truthy (JNum _) = True"
| "js_truthy (JStr s) = (s \<noteq> [])"
| "js_truthy (JArr _) = True"
| "js_truthy (JObj _) = True"

text \<open>\<open>a || b\<close>: the first operand when it is truthy, else the second.\<close>

definition js_or :: "jsval \<Rightarrow> jsval \<Rightarrow> jsval" where
  "js_or a b = (if js_truthy a then a else b)"

subsection \<open>Property access\<close>

definition quoted :: "string \<Rightarrow> string" where
  "quoted k = CHR 0x27 # k @ [CHR 0x27]"

definition read_error :: "string \<Rightarrow> string \<Rightarrow> js_exn" where
  "read_error what k =
     JsError TypeError (''Cannot read properties of '' @ what @ '' (reading '' @ quoted k @ '')'')"

text \<open>An array index is the canonical decimal string of a number below the length.\<close>

definition array_index :: "string \<Rightarrow> nat option" where
  "array_index k = (case digits_val k of
                      Some i \<Rightarrow> (if k = nat_digits i then Some i else None)
                    | None \<Rightarrow> None)"

fun get_prop :: "jsval \<Rightarrow> string \<Rightarrow> js_exn + jsval" where
  "get_prop JUndef k = Inl (read_error ''undefined'' k)"
| "get_prop JNull k = Inl (read_error ''null'' k)"
| "get_prop (JObj kvs) k = Inr (case map_of kvs k of Some v \<Rightarrow> v | None \<Rightarrow> JUndef)"
| "get_prop (JArr xs) k =
     Inr (if k = ''length'' then JNum (Fin (of_nat (length xs)))
          else case array_index k of
                 Some i \<Rightarrow> (if i < length xs then xs ! i else JUndef)
               | None \<Rightarrow> JUndef)"
| "get_prop (JStr s) k =
     Inr (if k = ''length'' then JNum (Fin (of_nat (length s)))
          else case array_index k of
                 Some i \<Rightarrow> (if i < length s then JStr [s ! i] else JUndef)
               | None \<Rightarrow> JUndef)"
| "get_prop (JBool b) k = Inr JUndef"
| "get_prop (JNum n) k = Inr JUndef"

text \<open>
  \<open>const {k} = v\<close>: \<open>RequireObjectCoercible\<close> first, with V8's message for a value that
  is not a variable of the program.
\<close>

definition destructure_prop :: "jsval \<Rightarrow> string \<Rightarrow> js_exn + jsval" where
  "destructure_prop v k =
     (if v = JUndef \<or> v = JNull
      then Inl (JsError TypeError
             (''Cannot destructure property '' @ quoted k @ '' of '' @ quoted ''(intermediate value)''
              @ '' as it is '' @ (if v = JNull then ''null'' else ''undefined'') @ ''.''))
      else get_prop v k)"

subsection \<open>ToString and ToNumber\<close>

text \<open>\<open>Array.prototype.join\<close> with a separator.\<close>

fun join_with :: "string \<Rightarrow> string list \<Rightarrow> string" where
  "join_with sep [] = []"
| "join_with sep [x] = x"
| "join_with sep (x # xs) = x @ sep @ join_with sep xs"

fun js_to_string :: "jsval \<Rightarrow> string" where
  "js_to_string JUndef = ''undefined''"
| "js_to_string JNull = ''null''"
| "js_to_string (JBool b) = (if b then ''true'' else ''false'')"
| "js_to_string (JNum n) = num_to_string n"
| "js_to_string (JStr s) = s"
| "js_to_string (JArr xs) =
     join_with '','' (map (\<lambda>v. if v = JUndef \<or> v = JNull then [] else js_to_string v) xs)"
| "js_to_string (JObj kvs) = ''[object Object]''"

text \<open>
  \<open>ToNumber\<close>: an object is first converted by \<open>ToPrimitive\<close>, whose \<open>valueOf\<close> returns
  the object itself and whose \<open>toString\<close> gives the string above.
\<close>

fun js_to_number :: "jsval \<Rightarrow> jsnum" where
  "js_to_number JUndef = NaN"
| "js_to_number JNull = Fin 0"
| "js_to_number (JBool b) = Fin (if b then 1 else 0)"
| "js_to_number (JNum n) = n"
| "js_to_number (JStr s) = string_to_number s"
| "js_to_number v = string_to_number (js_to_string v)"

text \<open>The message of \<open>new Error(x)\<close>: \<open>ToString(x)\<close>, empty for \<open>undefined\<close>.\<close>

definition error_message_of :: "jsval \<Rightarrow> string" where
  "error_message_of v = (if v = JUndef then [] else js_to_string v)"

text \<open>\<open>error instanceof Error ? error.message : d\<close> in a \<open>catch\<close> clause.\<close>

fun exn_message :: "js_exn \<Rightarrow> string \<Rightarrow> string" where
  "exn_message (JsError k m) d = m"
| "exn_message (Thrown v) d = d"

subsection \<open>Lemmas\<close>

lemma get_prop_JObj_Cons [simp]:
  "get_prop (JObj ((k', v) # kvs)) k = (if k' = k then Inr v else get_prop (JObj kvs) k)"
  by simp

lemma get_prop_Inl_iff:
  "(\<exists>e. get_prop v k = Inl e) \<longleftrightarrow> v = JUndef \<or> v = JNull"
  by (cases v) auto

lemma js_or_truthy [simp]: "js_truthy a \<Longrightarrow> js_or a b = a"
  by (simp add: js_or_def)

lemma js_or_falsy [simp]: "\<not> js_truthy a \<Longrightarrow> js_or a b = b"
  by (simp add: js_or_def)

lemma array_index_zero [simp]: "array_index ''0'' = Some 0"
  by (simp add: array_index_def digits_val_def char_digit_def nat_digits.simps digit_char_def)

end
