(* ===== verification/WebApi.thy ===== *)
theory WebApi
  imports JsValue
begin

unbundle bit_operations_syntax

text \<open>
  The platform the components run on, as far as they use it: a \<open>File\<close> and
  \<open>FileReader.readAsDataURL\<close> (the preview of \<open>ImageUpload.tsx\<close>), the result of
  \<open>fetch\<close> and of \<open>Response.json()\<close>, and the effects a handler has on the page
  (alerts, toasts, HTTP requests, console output). None of this is code of the repository:
  it is the environment the handlers are written against, modelled from the Web platform
  specifications (File API, RFC 2397 data URLs, RFC 4648 Base64, Fetch). The decoder
  \<open>parse_data_url\<close> is proved inverse to \<open>read_as_data_url\<close> over the \<open>8 word\<close> bytes.
\<close>

subsection \<open>Files and data URLs\<close>

record js_file =
  file_name :: string
  file_type :: string
  file_bytes :: "8 word list"

definition b64_alphabet :: string where
  "b64_alphabet = ''ABCDEFGHIJKLMNOPQRSTUVWXYZabcdefghijklmnopqrstuvwxyz0123456789+/''"

definition b64_char :: "8 word \<Rightarrow> char" where
  "b64_char w = b64_alphabet ! unat w"

text \<open>Three bytes become four characters of six bits each; a short tail is padded with \<open>=\<close>.\<close>

fun base64 :: "8 word list \<Rightarrow> string" where
  "base64 (a # b # c # rest) =
     [b64_char (drop_bit 2 a), b64_char (push_bit 4 (a AND 3) OR drop_bit 4 b),
      b64_char (push_bit 2 (b AND 15) OR drop_bit 6 c), b64_char (c AND 63)] @ base64 rest"
| "base64 [a, b] =
     [b64_char (drop_bit 2 a), b64_char (push_bit 4 (a AND 3) OR drop_bit 4 b),
      b64_char (push_bit 2 (b AND 15)), CHR ''='']"
| "base64 [a] = [b64_char (drop_bit 2 a), b64_char (push_bit 4 (a AND 3)), CHR ''='', CHR ''='']"
| "base64 [] = []"

text \<open>
  \<open>readAsDataURL\<close>: the media type when the file has one (File API, ``package data''
  for \<open>DataURL\<close>), then the Base64 of the bytes. A file with an empty type gives
  \<open>data:;base64,\<close>, the URL ``without a media-type'' the File API prescribes; some
  browsers write \<open>application/octet-stream\<close> there instead. No theorem depends on the
  text of the media type: the application's theorems only compare previews of files.
\<close>

definition read_as_data_url :: "js_file \<Rightarrow> string" where
  "read_as_data_url f = ''data:'' @ file_type f @ '';base64,'' @ base64 (file_bytes f)"

text \<open>
  Reading a data URL back (RFC 2397, RFC 4648): the media type up to the first \<open>;\<close>, and
  the bytes the Base64 payload denotes. This is what a consumer of the preview (the
  \<open>img\<close> element) decodes; it is the inverse the lemmas below establish.
\<close>

fun find_index :: "'a \<Rightarrow> 'a list \<Rightarrow> nat option" where
  "find_index x [] = None"
| "find_index x (y # ys) = (if x = y then Some 0 else map_option Suc (find_index x ys))"

definition b64_value :: "char \<Rightarrow> 8 word option" where
  "b64_value c = map_option of_nat (find_index c b64_alphabet)"

fun unbase64 :: "string \<Rightarrow> 8 word list option" where
  "unbase64 (c1 # c2 # c3 # c4 # rest) =
     (case (b64_value c1, b64_value c2) of
        (Some v1, Some v2) \<Rightarrow>
          (let a = push_bit 2 v1 OR drop_bit 4 v2 in
           if rest = [] \<and> c3 = CHR ''='' \<and> c4 = CHR ''='' then Some [a]
           else
             (case b64_value c3 of
                None \<Rightarrow> None
              | Some v3 \<Rightarrow>
                  (let b = push_bit 4 v2 OR drop_bit 2 v3 in
                   if rest = [] \<and> c4 = CHR ''='' then Some [a, b]
                   else
                     (case b64_value c4 of
                        None \<Rightarrow> None
                      | Some v4 \<Rightarrow> map_option (\<lambda>bs. [a, b, push_bit 6 v3 OR v4] @ bs) (unbase64 rest)))))
      | _ \<Rightarrow> None)"
| "unbase64 [] = Some []"
| "unbase64 _ = None"

definition parse_data_url :: "string \<Rightarrow> (string \<times> 8 word list) option" where
  "parse_data_url s =
     (if starts_with s ''data:'' then
        (let r = drop 5 s; t = takeWhile (\<lambda>c. c \<noteq> CHR '';'') r; rest = dropWhile (\<lambda>c. c \<noteq> CHR '';'') r in
         if starts_with rest '';base64,'' then map_option (Pair t) (unbase64 (drop 8 rest)) else None)
      else None)"

subsection \<open>HTTP\<close>

text \<open>
  What \<open>Response.json()\<close> yields: a parsed value, or the message of the \<open>SyntaxError\<close> the
  engine raises for a body that is not JSON.
\<close>

datatype body = BodyJson jsval | BodyMalformed string

record http_response =
  status :: int
  resp_text :: string
  resp_json :: body

definition response_ok :: "http_response \<Rightarrow> bool" where
  "response_ok r \<longleftrightarrow> 200 \<le> status r \<and> status r \<le> 299"

definition body_json :: "body \<Rightarrow> js_exn + jsval" where
  "body_json b = (case b of
                    BodyJson v \<Rightarrow> Inr v
                  | BodyMalformed m \<Rightarrow> Inl (JsError SyntaxError m))"

definition response_json :: "http_response \<Rightarrow> js_exn + jsval" where
  "response_json r = body_json (resp_json r)"

text \<open>A \<open>fetch\<close> either rejects (a \<open>TypeError\<close> with the browser's message) or responds.\<close>

datatype fetch_result = NetworkError string | Responded http_response

definition fetch_outcome :: "fetch_result \<Rightarrow> js_exn + http_response" where
  "fetch_outcome r = (case r of
                        NetworkError m \<Rightarrow> Inl (JsError TypeError m)
                      | Responded resp \<Rightarrow> Inr resp)"

subsection \<open>Effects on the page\<close>

record toast =
  toast_title :: string
  toast_description :: string
  toast_destructive :: bool

datatype effect =
    Alert string
  | ShowToast toast
  | PostImage string js_file
  | OpenFilePicker
  | ConsoleLog string jsval
  | ConsoleError string js_exn

subsection \<open>Lemmas\<close>

lemma base64_blocks: "4 * ((n + 2) div 3) + 4 = 4 * ((Suc (Suc (Suc n)) + 2) div 3)"
proof -
  have "Suc (Suc (Suc n)) + 2 = (n + 2) + 3" by simp
  then show ?thesis by (simp only: div_add_self2) simp
qed

lemma base64_length: "length (base64 bs) = 4 * ((length bs + 2) div 3)"
proof (induction bs rule: base64.induct)
  case (1 a b c rest)
  have "length (base64 (a # b # c # rest)) = length (base64 rest) + 4"
    by (simp only: base64.simps length_append list.size)
  with "1.IH" show ?case
    using base64_blocks [of "length rest"] by (simp del: base64.simps)
qed (simp only: base64.simps list.size, simp)+

lemma unat_six_bits:
  fixes a b :: "8 word"
  shows "unat (drop_bit 2 a) < 64"
    and "unat (a AND 63) < 64"
proof -
  have "unat (drop_bit 2 a) = unat a div 4"
    by (simp add: drop_bit_eq_div unat_div)
  moreover have "unat a < 2 ^ LENGTH(8)" by (rule unsigned_less)
  ultimately show "unat (drop_bit 2 a) < 64" by simp
  have "unat (a AND 63) \<le> unat (63 :: 8 word)"
    by (rule word_and_le1 [THEN word_le_nat_alt [THEN iffD1]])
  then show "unat (a AND 63) < 64" by simp
qed


lemma word8_eqI_cases:
  fixes a b :: "8 word"
  assumes "bit a 0 = bit b 0" "bit a 1 = bit b 1" "bit a 2 = bit b 2" "bit a 3 = bit b 3"
    "bit a 4 = bit b 4" "bit a 5 = bit b 5" "bit a 6 = bit b 6" "bit a 7 = bit b 7"
  shows "a = b"
proof (rule bit_word_eqI)
  fix n assume "n < LENGTH(8)"
  then have "n < 8" by simp
  then have "n = 0 \<or> n = 1 \<or> n = 2 \<or> n = 3 \<or> n = 4 \<or> n = 5 \<or> n = 6 \<or> n = 7" by linarith
  with assms show "bit a n = bit b n" by auto
qed

lemma b64_masks: "(3 :: 8 word) = mask 2" "(15 :: 8 word) = mask 4" "(63 :: 8 word) = mask 6"
  by (simp_all add: mask_eq_exp_minus_1)

text \<open>Regrouping four sextets into three bytes undoes the split of three bytes into four.\<close>

lemma b64_regroup:
  fixes a b c :: "8 word"
  shows "push_bit 2 (drop_bit 2 a) OR drop_bit 4 (push_bit 4 (a AND 3) OR drop_bit 4 b) = a"
    and "push_bit 2 (drop_bit 2 a) OR drop_bit 4 (push_bit 4 (a AND 3)) = a"
    and "push_bit 4 (push_bit 4 (a AND 3) OR drop_bit 4 b) OR drop_bit 2 (push_bit 2 (b AND 15) OR drop_bit 6 c) = b"
    and "push_bit 4 (push_bit 4 (a AND 3) OR drop_bit 4 b) OR drop_bit 2 (push_bit 2 (b AND 15)) = b"
    and "push_bit 6 (push_bit 2 (b AND 15) OR drop_bit 6 c) OR (c AND 63) = c"
  unfolding b64_masks by (rule word8_eqI_cases; simp add: bit_simps bit_mask_iff)+

text \<open>Every character \<open>base64\<close> emits encodes a value below 64.\<close>

lemma b64_sextets:
  fixes a b c :: "8 word"
  shows "drop_bit 6 (drop_bit 2 a) = 0"
    and "drop_bit 6 (push_bit 4 (a AND 3) OR drop_bit 4 b) = 0"
    and "drop_bit 6 (push_bit 4 (a AND 3)) = 0"
    and "drop_bit 6 (push_bit 2 (b AND 15) OR drop_bit 6 c) = 0"
    and "drop_bit 6 (push_bit 2 (b AND 15)) = 0"
    and "drop_bit 6 (c AND 63) = 0"
  unfolding b64_masks by (rule word8_eqI_cases; simp add: bit_simps bit_mask_iff)+

lemma find_index_nth:
  "distinct xs \<Longrightarrow> n < length xs \<Longrightarrow> find_index (xs ! n) xs = Some n"
proof (induction xs arbitrary: n)
  case (Cons y ys)
  then show ?case by (cases n) (auto simp: nth_mem)
qed simp

lemma b64_alphabet_facts: "distinct b64_alphabet" "length b64_alphabet = 64" "CHR ''='' \<notin> set b64_alphabet"
  by (simp_all add: b64_alphabet_def)

lemma b64_value_char:
  fixes w :: "8 word"
  assumes "drop_bit 6 w = 0"
  shows "b64_value (b64_char w) = Some w" and "b64_char w \<noteq> CHR ''=''"
proof -
  have "drop_bit 6 (unat w) = 0"
    using arg_cong [OF assms, of unat] by (simp only: unat_drop_bit_eq unsigned_0)
  then have "unat w div 2 ^ 6 = 0" by (simp only: drop_bit_eq_div)
  then have lt: "unat w < 64" by simp
  then show "b64_value (b64_char w) = Some w"
    using find_index_nth [of b64_alphabet "unat w"] b64_alphabet_facts
    by (simp add: b64_value_def b64_char_def)
  show "b64_char w \<noteq> CHR ''=''"
  proof
    assume "b64_char w = CHR ''=''"
    then have "CHR ''='' \<in> set b64_alphabet"
      using lt b64_alphabet_facts(2) nth_mem [of "unat w" b64_alphabet] by (simp add: b64_char_def)
    with b64_alphabet_facts(3) show False ..
  qed
qed

lemmas b64_char_values =
  b64_value_char(1) [OF b64_sextets(1)] b64_value_char(1) [OF b64_sextets(2)]
  b64_value_char(1) [OF b64_sextets(3)] b64_value_char(1) [OF b64_sextets(4)]
  b64_value_char(1) [OF b64_sextets(5)] b64_value_char(1) [OF b64_sextets(6)]

lemmas b64_char_not_pad =
  b64_value_char(2) [OF b64_sextets(1)] b64_value_char(2) [OF b64_sextets(2)]
  b64_value_char(2) [OF b64_sextets(3)] b64_value_char(2) [OF b64_sextets(4)]
  b64_value_char(2) [OF b64_sextets(5)] b64_value_char(2) [OF b64_sextets(6)]

lemma unbase64_base64: "unbase64 (base64 bs) = Some bs"
  by (induction bs rule: base64.induct)
    (simp_all only: base64.simps append_Cons append_Nil unbase64.simps b64_char_values b64_char_not_pad
      b64_regroup Let_def option.case prod.case option.map simp_thms if_True if_False list.distinct)

lemma parse_data_url_read:
  assumes "CHR '';'' \<notin> set (file_type f)"
  shows "parse_data_url (read_as_data_url f) = Some (file_type f, file_bytes f)"
proof -
  have "\<And>c. c \<in> set (file_type f) \<Longrightarrow> c \<noteq> CHR '';''" using assms by blast
  then have tw: "takeWhile (\<lambda>c. c \<noteq> CHR '';'') (file_type f @ '';base64,'' @ base64 (file_bytes f)) = file_type f"
    and dw: "dropWhile (\<lambda>c. c \<noteq> CHR '';'') (file_type f @ '';base64,'' @ base64 (file_bytes f)) =
             '';base64,'' @ base64 (file_bytes f)"
    by (simp_all add: takeWhile_append2 dropWhile_append2)
  have d5: "drop 5 (''data:'' @ x) = x" for x :: string by simp
  show ?thesis
    unfolding parse_data_url_def read_as_data_url_def Let_def d5 tw dw
    by (simp add: starts_with_def unbase64_base64)
qed

lemma data_url_prefix: "starts_with (read_as_data_url f) ''data:''"
  by (simp add: read_as_data_url_def starts_with_def)

lemma data_url_not_Nil [simp]: "read_as_data_url f \<noteq> []"
  by (simp add: read_as_data_url_def)

lemma body_json_eq_Inr [simp]: "body_json b = Inr v \<longleftrightarrow> b = BodyJson v"
  by (cases b) (simp_all add: body_json_def)

lemma body_json_BodyJson [simp]: "body_json (BodyJson v) = Inr v"
  by (simp add: body_json_def)

lemmas [js_simps] = response_ok_def body_json_def response_json_def fetch_outcome_def read_as_data_url_def

end
