(* ===== verification/Json.thy ===== *)
theory Json
  imports WebApi
begin

text \<open>
  \<open>JSON.stringify\<close> and \<open>JSON.parse\<close> (ECMA-262 section 25.5), the serialisation of every
  response body the edge function sends and of every body a client reads. Strings are
  byte strings, so a \<open>\u\<close> escape above \<open>00ff\<close> is not a character of this model and is
  refused. Numbers are printed by \<open>Number::toString\<close> and read by \<open>StringToNumber\<close> on the
  numeric token; the round trip below is proved for values without numbers.
\<close>

subsection \<open>QuoteJSONString\<close>

definition hex_digit :: "nat \<Rightarrow> char" where
  "hex_digit n = ''0123456789abcdef'' ! n"

definition json_escape :: "char \<Rightarrow> string" where
  "json_escape c =
     (if c = CHR 0x22 then [CHR 0x5C, CHR 0x22]
      else if c = CHR 0x5C then [CHR 0x5C, CHR 0x5C]
      else if c = CHR 0x08 then [CHR 0x5C, CHR ''b'']
      else if c = CHR 0x09 then [CHR 0x5C, CHR ''t'']
      else if c = CHR 0x0A then [CHR 0x5C, CHR ''n'']
      else if c = CHR 0x0C then [CHR 0x5C, CHR ''f'']
      else if c = CHR 0x0D then [CHR 0x5C, CHR ''r'']
      else if of_char c < (32 :: nat)
      then [CHR 0x5C, CHR ''u'', CHR ''0'', CHR ''0'', hex_digit (of_char c div 16), hex_digit (of_char c mod 16)]
      else [c])"

definition quote_json :: "string \<Rightarrow> string" where
  "quote_json s = CHR 0x22 # concat (map json_escape s) @ [CHR 0x22]"

subsection \<open>Reading a string literal\<close>

definition hex_val :: "char \<Rightarrow> nat option" where
  "hex_val c = (case find_index c ''0123456789abcdef'' of
                  Some n \<Rightarrow> Some n
                | None \<Rightarrow> find_index c ''0123456789ABCDEF'')"

definition hex4 :: "char \<Rightarrow> char \<Rightarrow> char \<Rightarrow> char \<Rightarrow> nat option" where
  "hex4 a b c d =
     (case (hex_val a, hex_val b, hex_val c, hex_val d) of
        (Some w, Some x, Some y, Some z) \<Rightarrow> Some (((w * 16 + x) * 16 + y) * 16 + z)
      | _ \<Rightarrow> None)"

definition simple_unescape :: "char \<Rightarrow> char option" where
  "simple_unescape e =
     (if e = CHR 0x22 \<or> e = CHR 0x5C \<or> e = CHR ''/'' then Some e
      else if e = CHR ''b'' then Some (CHR 0x08)
      else if e = CHR ''t'' then Some (CHR 0x09)
      else if e = CHR ''n'' then Some (CHR 0x0A)
      else if e = CHR ''f'' then Some (CHR 0x0C)
      else if e = CHR ''r'' then Some (CHR 0x0D)
      else None)"

text \<open>The characters after an opening quote, up to the closing one; the rest of the input.\<close>

fun unquote_body :: "string \<Rightarrow> (string \<times> string) option" where
  "unquote_body [] = None"
| "unquote_body (c # cs) =
     (if c = CHR 0x22 then Some ([], cs)
      else if c = CHR 0x5C then
        (case cs of
           [] \<Rightarrow> None
         | e # cs' \<Rightarrow>
             (if e = CHR ''u'' then
                (case cs' of
                   h1 # h2 # h3 # h4 # rest \<Rightarrow>
                     (case hex4 h1 h2 h3 h4 of
                        Some n \<Rightarrow> (if n < 256 then map_option (apfst (Cons (char_of n))) (unquote_body rest)
                                  else None)
                      | None \<Rightarrow> None)
                 | _ \<Rightarrow> None)
              else
                (case simple_unescape e of
                   Some d \<Rightarrow> map_option (apfst (Cons d)) (unquote_body cs')
                 | None \<Rightarrow> None)))
      else if of_char c < (32 :: nat) then None
      else map_option (apfst (Cons c)) (unquote_body cs))"

subsection \<open>SerializeJSONProperty\<close>

text \<open>
  \<open>None\<close> is \<open>undefined\<close>: a property whose value serialises to nothing is left out of
  its object, an array element becomes \<open>null\<close>; non-finite numbers print as \<open>null\<close>.
\<close>

fun json_stringify :: "jsval \<Rightarrow> string option" where
  "json_stringify JUndef = None"
| "json_stringify JNull = Some ''null''"
| "json_stringify (JBool b) = Some (if b then ''true'' else ''false'')"
| "json_stringify (JNum (Fin x)) = Some (num_to_string (Fin x))"
| "json_stringify (JNum _) = Some ''null''"
| "json_stringify (JStr s) = Some (quote_json s)"
| "json_stringify (JArr xs) =
     Some (''['' @ join_with '','' (map (\<lambda>v. case json_stringify v of None \<Rightarrow> ''null'' | Some t \<Rightarrow> t) xs) @ '']'')"
| "json_stringify (JObj kvs) =
     Some (''{'' @ join_with '',''
       (concat (map (\<lambda>(k, v). case json_stringify v of None \<Rightarrow> [] | Some t \<Rightarrow> [quote_json k @ '':'' @ t]) kvs))
       @ ''}'')"

subsection \<open>JSON.parse\<close>

definition json_ws :: "char \<Rightarrow> bool" where
  "json_ws c \<longleftrightarrow> c = CHR 0x20 \<or> c = CHR 0x09 \<or> c = CHR 0x0A \<or> c = CHR 0x0D"

abbreviation skip_ws :: "string \<Rightarrow> string" where
  "skip_ws \<equiv> dropWhile json_ws"

definition num_char :: "char \<Rightarrow> bool" where
  "num_char c \<longleftrightarrow> is_digit c \<or> c = CHR ''-'' \<or> c = CHR ''+'' \<or> c = CHR ''.'' \<or> c = CHR ''e'' \<or> c = CHR ''E''"

text \<open>A repeated key overwrites the earlier value in its place (CreateDataProperty).\<close>

fun obj_add :: "(string \<times> jsval) list \<Rightarrow> string \<Rightarrow> jsval \<Rightarrow> (string \<times> jsval) list" where
  "obj_add [] k v = [(k, v)]"
| "obj_add ((k', v') # kvs) k v = (if k' = k then (k, v) # kvs else (k', v') # obj_add kvs k v)"

definition obj_of_members :: "(string \<times> jsval) list \<Rightarrow> (string \<times> jsval) list" where
  "obj_of_members kvs = foldl (\<lambda>acc (k, v). obj_add acc k v) [] kvs"

text \<open>
  A recursive-descent reader with fuel: every call consumes the fuel by one, and the text
  of a value is at least as long as the calls that read it, so the length of the input is
  enough (see \<open>json_parse\<close>).
\<close>

fun parse_value :: "nat \<Rightarrow> string \<Rightarrow> (jsval \<times> string) option"
and parse_elements :: "nat \<Rightarrow> string \<Rightarrow> (jsval list \<times> string) option"
and parse_members :: "nat \<Rightarrow> string \<Rightarrow> ((string \<times> jsval) list \<times> string) option" where
  "parse_value 0 s = None"
| "parse_value (Suc n) s =
     (case skip_ws s of
        [] \<Rightarrow> None
      | c # cs \<Rightarrow>
          (if c = CHR 0x22 then map_option (apfst JStr) (unquote_body cs)
           else if c = CHR ''['' then
             (if take 1 (skip_ws cs) = '']'' then Some (JArr [], drop 1 (skip_ws cs))
              else map_option (apfst JArr) (parse_elements n cs))
           else if c = CHR ''{'' then
             (if take 1 (skip_ws cs) = ''}'' then Some (JObj [], drop 1 (skip_ws cs))
              else map_option (apfst (JObj \<circ> obj_of_members)) (parse_members n cs))
           else if take 4 (c # cs) = ''null'' then Some (JNull, drop 4 (c # cs))
           else if take 4 (c # cs) = ''true'' then Some (JBool True, drop 4 (c # cs))
           else if take 5 (c # cs) = ''false'' then Some (JBool False, drop 5 (c # cs))
           else if is_digit c \<or> c = CHR ''-'' then
             Some (JNum (string_to_number (takeWhile num_char (c # cs))), dropWhile num_char (c # cs))
           else None))"
| "parse_elements 0 s = None"
| "parse_elements (Suc n) s =
     (case parse_value n s of
        None \<Rightarrow> None
      | Some (v, r) \<Rightarrow>
          (if take 1 (skip_ws r) = '','' then map_option (apfst (Cons v)) (parse_elements n (drop 1 (skip_ws r)))
           else if take 1 (skip_ws r) = '']'' then Some ([v], drop 1 (skip_ws r))
           else None))"
| "parse_members 0 s = None"
| "parse_members (Suc n) s =
     (case skip_ws s of
        c # cs \<Rightarrow>
          (if c \<noteq> CHR 0x22 then None
           else
             (case unquote_body cs of
                None \<Rightarrow> None
              | Some (k, r) \<Rightarrow>
                  (if take 1 (skip_ws r) \<noteq> '':'' then None
                   else
                     (case parse_value n (drop 1 (skip_ws r)) of
                        None \<Rightarrow> None
                      | Some (v, r') \<Rightarrow>
                          (if take 1 (skip_ws r') = '','' then
                             map_option (apfst (Cons (k, v))) (parse_members n (drop 1 (skip_ws r')))
                           else if take 1 (skip_ws r') = ''}'' then Some ([(k, v)], drop 1 (skip_ws r'))
                           else None)))))
      | [] \<Rightarrow> None)"

text \<open>\<open>JSON.parse(s)\<close>: one value, surrounded by white space only; \<open>None\<close> is a \<open>SyntaxError\<close>.\<close>

definition json_parse :: "string \<Rightarrow> jsval option" where
  "json_parse s =
     (case parse_value (length s) s of
        Some (v, r) \<Rightarrow> (if skip_ws r = [] then Some v else None)
      | None \<Rightarrow> None)"


subsection \<open>Values the round trip covers\<close>

text \<open>No number and no \<open>undefined\<close> anywhere, no repeated key; \<open>jcalls\<close> counts the reader's calls.\<close>

fun json_plain :: "jsval \<Rightarrow> bool" where
  "json_plain JUndef = False"
| "json_plain JNull = True"
| "json_plain (JBool b) = True"
| "json_plain (JNum n) = False"
| "json_plain (JStr s) = True"
| "json_plain (JArr xs) = list_all json_plain xs"
| "json_plain (JObj kvs) = (distinct (map fst kvs) \<and> list_all (\<lambda>(k, v). json_plain v) kvs)"

fun jcalls :: "jsval \<Rightarrow> nat" where
  "jcalls (JArr xs) = (if xs = [] then 1 else 1 + sum_list (map (\<lambda>x. Suc (jcalls x)) xs))"
| "jcalls (JObj kvs) = (if kvs = [] then 1 else 1 + sum_list (map (\<lambda>(k, v). Suc (jcalls v)) kvs))"
| "jcalls _ = 1"

subsection \<open>Lemmas\<close>

lemma hex_val_digit: "n < 16 \<Longrightarrow> hex_val (hex_digit n) = Some n"
  unfolding hex_val_def hex_digit_def
  using find_index_nth [of "''0123456789abcdef''" n] by simp

lemma escape_unquote:
  "unquote_body (json_escape c @ r) = map_option (apfst (Cons c)) (unquote_body r)"
proof -
  consider "c = CHR 0x22" | "c = CHR 0x5C" | "c = CHR 0x08" | "c = CHR 0x09" | "c = CHR 0x0A"
    | "c = CHR 0x0C" | "c = CHR 0x0D"
    | "c \<notin> {CHR 0x22, CHR 0x5C, CHR 0x08, CHR 0x09, CHR 0x0A, CHR 0x0C, CHR 0x0D}" "of_char c < (32 :: nat)"
    | "c \<notin> {CHR 0x22, CHR 0x5C, CHR 0x08, CHR 0x09, CHR 0x0A, CHR 0x0C, CHR 0x0D}" "\<not> of_char c < (32 :: nat)"
    by blast
  then show ?thesis
  proof cases
    case 8
    let ?n = "of_char c :: nat"
    have z: "hex_val (CHR ''0'') = Some 0" by (simp add: hex_val_def)
    have "hex_val (hex_digit (?n div 16)) = Some (?n div 16)" "hex_val (hex_digit (?n mod 16)) = Some (?n mod 16)"
      using 8(2) by (simp_all add: hex_val_digit)
    then have h: "hex4 (CHR ''0'') (CHR ''0'') (hex_digit (?n div 16)) (hex_digit (?n mod 16)) = Some ?n"
      using z by (simp add: hex4_def)
    show ?thesis using 8 h by (simp add: json_escape_def)
  next
    case 9
    then show ?thesis by (auto simp: json_escape_def)
  qed (simp_all add: json_escape_def simple_unescape_def)
qed

lemma quote_unquote: "unquote_body (concat (map json_escape s) @ CHR 0x22 # r) = Some (s, r)"
  by (induction s) (simp_all add: escape_unquote)


lemma stringify_plain_head:
  "json_plain v \<Longrightarrow> \<exists>c t. json_stringify v = Some (c # t) \<and>
     c \<in> {CHR 0x22, CHR ''['', CHR ''{'', CHR ''n'', CHR ''t'', CHR ''f''}"
  by (cases v) (auto simp: quote_json_def)


lemma plain_text:
  assumes "json_plain v"
  shows "json_stringify v = Some (the (json_stringify v))"
    and "skip_ws (the (json_stringify v) @ r) = the (json_stringify v) @ r"
    and "take 1 (the (json_stringify v) @ r) \<noteq> '']''" "take 1 (the (json_stringify v) @ r) \<noteq> ''}''"
  using stringify_plain_head [OF assms] by (auto simp: json_ws_def)

lemma plain_texts:
  "list_all json_plain xs \<Longrightarrow>
     map (\<lambda>v. case json_stringify v of None \<Rightarrow> ''null'' | Some t \<Rightarrow> t) xs = map (\<lambda>v. the (json_stringify v)) xs"
  by (induction xs) (auto dest!: stringify_plain_head)

lemma plain_members:
  "list_all (\<lambda>(k, v). json_plain v) kvs \<Longrightarrow>
     concat (map (\<lambda>(k, v). case json_stringify v of None \<Rightarrow> [] | Some t \<Rightarrow> [quote_json k @ '':'' @ t]) kvs) =
     map (\<lambda>(k, v). quote_json k @ '':'' @ the (json_stringify v)) kvs"
  by (induction kvs) (auto dest!: stringify_plain_head)

lemma obj_add_fresh: "k \<notin> fst ` set kvs \<Longrightarrow> obj_add kvs k v = kvs @ [(k, v)]"
  by (induction kvs) auto

lemma obj_of_members_distinct:
  assumes "distinct (map fst kvs)"
  shows "obj_of_members kvs = kvs"
proof -
  have "distinct (map fst (acc @ kvs)) \<Longrightarrow> foldl (\<lambda>acc (k, v). obj_add acc k v) acc kvs = acc @ kvs" for acc
  proof (induction kvs arbitrary: acc)
    case (Cons kv kvs)
    obtain k v where kv: "kv = (k, v)" by fastforce
    then have "obj_add acc k v = acc @ [(k, v)]" using Cons.prems by (auto intro: obj_add_fresh)
    then show ?case using Cons kv by simp
  qed simp
  then show ?thesis using assms by (simp add: obj_of_members_def)
qed

lemma join_with_Cons:
  "join_with sep (x # xs) = x @ (if xs = [] then [] else sep @ join_with sep xs)"
  by (cases xs) simp_all

lemma parse_stringify:
  assumes "json_plain v" "jcalls v \<le> n"
  shows "parse_value n (the (json_stringify v) @ r) = Some (v, r)"
  using assms
proof (induction v arbitrary: n r)
  case JNull
  then obtain m where "n = Suc m" by (cases n) auto
  then show ?case by (simp add: json_ws_def)
next
  case (JBool b)
  then obtain m where "n = Suc m" by (cases n) auto
  then show ?case by (simp add: json_ws_def)
next
  case (JStr s)
  then obtain m where "n = Suc m" by (cases n) auto
  then show ?case by (simp add: json_ws_def quote_json_def quote_unquote)
next
  case (JArr xs)
  obtain m where n: "n = Suc m" using JArr.prems(2) by (cases n) (auto split: if_splits)
  show ?case
  proof (cases "xs = []")
    case True
    then show ?thesis using n by (simp add: json_ws_def)
  next
    case False
    have E: "set ys \<subseteq> set xs \<Longrightarrow> ys \<noteq> [] \<Longrightarrow> sum_list (map (\<lambda>x. Suc (jcalls x)) ys) \<le> k \<Longrightarrow>
      parse_elements k (join_with '','' (map (\<lambda>v. the (json_stringify v)) ys) @ '']'' @ r') = Some (ys, r')"
      for ys k r'
    proof (induction ys arbitrary: k)
      case (Cons y ys)
      then obtain k' where k: "k = Suc k'" by (cases k) auto
      have y: "y \<in> set xs" "json_plain y" using Cons.prems(1) JArr.prems(1) by (auto simp: list_all_iff)
      have b: "jcalls y \<le> k'" "sum_list (map (\<lambda>x. Suc (jcalls x)) ys) \<le> k'"
        using Cons.prems(3) k by simp_all
      show ?case
      proof (cases ys)
        case Nil
        then show ?thesis using JArr.IH [OF y b(1)] k by (simp add: json_ws_def)
      next
        case (Cons z zs)
        have "parse_elements k' (join_with '','' (map (\<lambda>v. the (json_stringify v)) ys) @ '']'' @ r') = Some (ys, r')"
          using Cons.IH [of k'] Cons.prems(1) b(2) \<open>ys = z # zs\<close> by simp
        then show ?thesis using JArr.IH [OF y b(1)] k \<open>ys = z # zs\<close> by (simp add: json_ws_def)
      qed
    qed simp
    obtain a as where xs: "xs = a # as" using False by (cases xs) auto
    let ?R = "(if as = [] then [] else '','' @ join_with '','' (map (\<lambda>v. the (json_stringify v)) as)) @ '']'' @ r"
    have "join_with '','' (map (\<lambda>v. the (json_stringify v)) xs) @ '']'' @ r = the (json_stringify a) @ ?R"
      using xs by (simp add: join_with_Cons)
    moreover have "json_plain a" using JArr.prems(1) xs by simp
    ultimately have "take 1 (skip_ws (join_with '','' (map (\<lambda>v. the (json_stringify v)) xs) @ '']'' @ r)) \<noteq> '']''"
      using plain_text(2,3) [of a ?R] by simp
    moreover have "sum_list (map (\<lambda>x. Suc (jcalls x)) xs) \<le> m" using JArr.prems(2) n False by simp
    ultimately show ?thesis
      using E [of xs m r] False n JArr.prems(1) by (simp add: plain_texts json_ws_def)
  qed
next
  case (JObj kvs)
  obtain m where n: "n = Suc m" using JObj.prems(2) by (cases n) (auto split: if_splits)
  show ?case
  proof (cases "kvs = []")
    case True
    then show ?thesis using n by (simp add: json_ws_def)
  next
    case False
    have M: "set ys \<subseteq> set kvs \<Longrightarrow> ys \<noteq> [] \<Longrightarrow> sum_list (map (\<lambda>(k, v). Suc (jcalls v)) ys) \<le> k \<Longrightarrow>
      parse_members k (join_with '','' (map (\<lambda>(k, v). quote_json k @ '':'' @ the (json_stringify v)) ys) @ ''}'' @ r')
        = Some (ys, r')"
      for ys k r'
    proof (induction ys arbitrary: k)
      case (Cons ab ys)
      obtain a b where ab: "ab = (a, b)" by fastforce
      then obtain k' where k: "k = Suc k'" using Cons.prems(3) by (cases k) auto
      have b: "(a, b) \<in> set kvs" "json_plain b" using Cons.prems(1) JObj.prems(1) ab by (auto simp: list_all_iff)
      have c: "jcalls b \<le> k'" "sum_list (map (\<lambda>(k, v). Suc (jcalls v)) ys) \<le> k'"
        using Cons.prems(3) k ab by simp_all
      have IHb: "parse_value k' (the (json_stringify b) @ t) = Some (b, t)" for t
        using JObj.IH [OF b(1), of b] b(2) c(1) by simp
      show ?case
      proof (cases ys)
        case Nil
        then show ?thesis using IHb k ab by (simp add: json_ws_def quote_json_def quote_unquote)
      next
        case (Cons z zs)
        have "parse_members k' (join_with '','' (map (\<lambda>(k, v). quote_json k @ '':'' @ the (json_stringify v)) ys) @ ''}'' @ r')
          = Some (ys, r')"
          using Cons.IH [of k'] Cons.prems(1) c(2) \<open>ys = z # zs\<close> by simp
        then show ?thesis using IHb k ab \<open>ys = z # zs\<close> by (simp add: json_ws_def quote_json_def quote_unquote)
      qed
    qed simp
    have d: "distinct (map fst kvs)" using JObj.prems(1) by simp
    have sm: "sum_list (map (\<lambda>(k, v). Suc (jcalls v)) kvs) \<le> m" using JObj.prems(2) n False by simp
    let ?ms = "map (\<lambda>(k, v). quote_json k @ '':'' @ the (json_stringify v)) kvs"
    have tx: "the (json_stringify (JObj kvs)) = ''{'' @ join_with '','' ?ms @ ''}''"
      using JObj.prems(1) by (simp add: plain_members)
    obtain a b as where kvs: "kvs = (a, b) # as" using False by (cases kvs) auto
    have "take 1 (skip_ws (join_with '','' ?ms @ ''}'' @ r)) \<noteq> ''}''"
      using kvs by (simp add: join_with_Cons quote_json_def json_ws_def)
    then show ?thesis
      using M [OF _ False sm, of r] n obj_of_members_distinct [OF d] tx by (simp add: json_ws_def)
  qed
qed simp_all


lemma length_join_with:
  "length sep = 1 \<Longrightarrow> xs \<noteq> [] \<Longrightarrow> length (join_with sep xs) + 1 = sum_list (map length xs) + length xs"
  by (induction sep xs rule: join_with.induct) auto

lemma jcalls_le_length:
  "json_plain v \<Longrightarrow> jcalls v \<le> length (the (json_stringify v))"
proof (induction v)
  case (JArr xs)
  show ?case
  proof (cases "xs = []")
    case False
    let ?ts = "map (\<lambda>v. the (json_stringify v)) xs"
    have "sum_list (map (\<lambda>x. Suc (jcalls x)) xs) \<le> sum_list (map (\<lambda>x. Suc (length (the (json_stringify x)))) xs)"
      using JArr by (intro sum_list_mono) (simp add: list_all_iff)
    moreover have "length (join_with '','' ?ts) + 1 = sum_list (map length ?ts) + length xs"
      using False length_join_with [of "'',''" ?ts] by simp
    moreover have "sum_list (map (\<lambda>x. Suc (length (the (json_stringify x)))) xs) = sum_list (map length ?ts) + length xs"
      by (induction xs) simp_all
    ultimately show ?thesis using False JArr.prems by (simp add: plain_texts)
  qed simp
next
  case (JObj kvs)
  show ?case
  proof (cases "kvs = []")
    case False
    let ?ms = "map (\<lambda>(k, v). quote_json k @ '':'' @ the (json_stringify v)) kvs"
    have "sum_list (map (\<lambda>(k, v). Suc (jcalls v)) kvs) \<le> sum_list (map (\<lambda>(k, v). Suc (length (the (json_stringify v)))) kvs)"
      using JObj by (intro sum_list_mono) (auto simp: list_all_iff)
    moreover have "length (join_with '','' ?ms) + 1 = sum_list (map length ?ms) + length kvs"
      using False length_join_with [of "'',''" ?ms] by simp
    moreover have "sum_list (map (\<lambda>(k, v). Suc (length (the (json_stringify v)))) kvs) \<le> sum_list (map length ?ms)"
      by (induction kvs) (auto simp: quote_json_def)
    ultimately show ?thesis using False JObj.prems by (simp add: plain_members)
  qed simp
qed (simp_all add: quote_json_def)

lemma json_parse_stringify:
  "json_plain v \<Longrightarrow> json_parse (the (json_stringify v)) = Some v"
  using parse_stringify [of v "length (the (json_stringify v))" "[]"] jcalls_le_length [of v]
  by (simp add: json_parse_def)


end
