(* ===== verification/AnalyzePlant.thy ===== *)
theory AnalyzePlant
  imports Json
begin

text \<open>
  The edge function \<open>supabase/functions/analyze-plant/index.ts\<close>: one stateless HTTP
  handler that answers a CORS preflight, reads \<open>imageBase64\<close> from a JSON body, checks the
  \<open>LOVABLE_API_KEY\<close> environment variable, forwards the image with a fixed system prompt to
  the AI gateway, and relays the first completion's text or an error.
  \<open>serve_analyze key gw req\<close> is the handler passed to \<open>serve\<close>: \<open>key\<close> is what
  \<open>Deno.env.get('LOVABLE_API_KEY')\<close> returns, \<open>gw\<close> answers the one \<open>fetch\<close> the handler
  makes. Its result records the response, the gateway requests sent, and the console output.
  Response bodies are the values given to \<open>JSON.stringify\<close>; the serialisation itself is
  not modelled.
\<close>

subsection \<open>Data\<close>

record proxy_request =
  req_method :: string
  req_body :: body

record proxy_response =
  res_status :: int
  res_headers :: "(string \<times> string) list"
  res_body :: "jsval option"

record gateway_request =
  gw_url :: string
  gw_headers :: "(string \<times> string) list"
  gw_body :: jsval

datatype log_entry =
    LogInfo string
  | LogGatewayError int string
  | LogHandlerError js_exn

record proxy_out =
  out_response :: proxy_response
  out_sent :: "gateway_request list"
  out_logs :: "log_entry list"

subsection \<open>Constants of the handler\<close>

definition corsHeaders :: "(string \<times> string) list" where
  "corsHeaders =
     [(''Access-Control-Allow-Origin'', ''*''),
      (''Access-Control-Allow-Headers'', ''authorization, x-client-info, apikey, content-type'')]"

definition json_headers :: "(string \<times> string) list" where
  "json_headers = corsHeaders @ [(''Content-Type'', ''application/json'')]"

definition system_prompt :: string where
  \<open>system_prompt = join_with [CHR 0x0A]
     [''You are an expert plant pathologist specializing in disease diagnosis. Analyze plant images and provide detailed, accurate diagnoses.'',
      '''',
      ''For each image, provide:'',
      ''1. Disease Name (or "Healthy" if no disease detected)'',
      ''2. Confidence Level (High/Medium/Low)'',
      ''3. Affected Plant Part (leaves, stems, roots, etc.)'',
      ''4. Disease Symptoms (detailed description of visible signs)'',
      ''5. Possible Causes (pathogens, environmental factors, nutrient deficiency)'',
      ''6. Severity Assessment (Mild/Moderate/Severe)'',
      ''7. Treatment Recommendations (3-5 actionable steps)'',
      ''8. Prevention Tips (3-5 preventive measures)'',
      '''',
      ''Be specific, professional, and helpful. If you cannot clearly identify the disease, state uncertainty and suggest consulting a local agricultural extension office.'']\<close>

definition user_prompt :: string where
  "user_prompt = ''Please analyze this plant image and provide a comprehensive disease diagnosis report.''"

text \<open>The body given to \<open>JSON.stringify\<close> for the gateway (lines 29 to 64).\<close>

definition gateway_body :: "jsval \<Rightarrow> jsval" where
  "gateway_body img =
     JObj [(''model'', JStr ''google/gemini-2.5-flash''),
           (''messages'', JArr
              [JObj [(''role'', JStr ''system''), (''content'', JStr system_prompt)],
               JObj [(''role'', JStr ''user''),
                     (''content'', JArr
                        [JObj [(''type'', JStr ''text''), (''text'', JStr user_prompt)],
                         JObj [(''type'', JStr ''image_url''),
                               (''image_url'', JObj [(''url'', img)])]])]])]"

definition gateway_request :: "string \<Rightarrow> jsval \<Rightarrow> gateway_request" where
  "gateway_request key img =
     \<lparr>gw_url = ''https://ai.gateway.lovable.dev/v1/chat/completions'',
      gw_headers = [(''Authorization'', ''Bearer '' @ key), (''Content-Type'', ''application/json'')],
      gw_body = gateway_body img\<rparr>"

definition preflight_response :: proxy_response where
  "preflight_response = \<lparr>res_status = 200, res_headers = corsHeaders, res_body = None\<rparr>"

definition error_response :: "int \<Rightarrow> string \<Rightarrow> proxy_response" where
  "error_response st m =
     \<lparr>res_status = st, res_headers = json_headers, res_body = Some (JObj [(''error'', JStr m)])\<rparr>"

definition diagnosis_response :: "jsval \<Rightarrow> proxy_response" where
  "diagnosis_response d =
     \<lparr>res_status = 200, res_headers = json_headers, res_body = Some (JObj [(''diagnosis'', d)])\<rparr>"

definition rate_limit_msg :: string where
  "rate_limit_msg = ''Rate limit exceeded. Please try again in a moment.''"

definition credits_msg :: string where
  "credits_msg = ''AI service credits exhausted. Please contact support.''"

definition key_missing_error :: js_exn where
  "key_missing_error = JsError PlainError ''LOVABLE_API_KEY is not configured''"

subsection \<open>The handler\<close>

text \<open>\<open>data.choices[0].message.content\<close>, each step throwing on \<open>undefined\<close> or \<open>null\<close>.\<close>

definition extract_content :: "jsval \<Rightarrow> js_exn + jsval" where
  "extract_content data =
     sbind (get_prop data ''choices'') (\<lambda>cs.
     sbind (get_prop cs ''0'') (\<lambda>c.
     sbind (get_prop c ''message'') (\<lambda>m.
     get_prop m ''content'')))"

text \<open>
  Lines 67 to 96, after the gateway answered: the two relayed throttling statuses, the
  logged failure, and the diagnosis.
\<close>

definition gateway_reply ::
  "http_response \<Rightarrow> log_entry list \<times> (js_exn + proxy_response)" where
  "gateway_reply resp =
     (if \<not> response_ok resp then
        (if status resp = 429 then ([], Inr (error_response 429 rate_limit_msg))
         else if status resp = 402 then ([], Inr (error_response 402 credits_msg))
         else ([LogGatewayError (status resp) (resp_text resp)],
               Inl (JsError PlainError ''AI analysis failed'')))
      else
        (case sbind (response_json resp) extract_content of
           Inl e \<Rightarrow> ([], Inl e)
         | Inr d \<Rightarrow> ([LogInfo ''Analysis complete''], Inr (diagnosis_response d))))"

text \<open>The \<open>try\<close> block (lines 13 to 96): its console output, the requests sent, its outcome.\<close>

definition analyze_try ::
  "string option \<Rightarrow> (gateway_request \<Rightarrow> fetch_result) \<Rightarrow> proxy_request
     \<Rightarrow> log_entry list \<times> gateway_request list \<times> (js_exn + proxy_response)" where
  "analyze_try key gw req =
     (case sbind (body_json (req_body req)) (\<lambda>v. destructure_prop v ''imageBase64'') of
        Inl e \<Rightarrow> ([], [], Inl e)
      | Inr img \<Rightarrow>
          (case key of
             None \<Rightarrow> ([], [], Inl key_missing_error)
           | Some k \<Rightarrow>
               if k = [] then ([], [], Inl key_missing_error)
               else
                 let up = gateway_request k img
                 in case fetch_outcome (gw up) of
                      Inl e \<Rightarrow> ([LogInfo ''Analyzing plant image...''], [up], Inl e)
                    | Inr resp \<Rightarrow>
                        (case gateway_reply resp of
                           (logs, r) \<Rightarrow> (LogInfo ''Analyzing plant image...'' # logs, [up], r))))"

definition serve_analyze ::
  "string option \<Rightarrow> (gateway_request \<Rightarrow> fetch_result) \<Rightarrow> proxy_request \<Rightarrow> proxy_out" where
  "serve_analyze key gw req =
     (if req_method req = ''OPTIONS''
      then \<lparr>out_response = preflight_response, out_sent = [], out_logs = []\<rparr>
      else
        (case analyze_try key gw req of
           (logs, sent, Inr resp) \<Rightarrow> \<lparr>out_response = resp, out_sent = sent, out_logs = logs\<rparr>
         | (logs, sent, Inl e) \<Rightarrow>
             \<lparr>out_response = error_response 500 (exn_message e ''Unknown error occurred''),
              out_sent = sent, out_logs = logs @ [LogHandlerError e]\<rparr>))"

text \<open>A gateway answer with one completion, for the examples below.\<close>

definition sample_completion :: "string \<Rightarrow> jsval" where
  "sample_completion s =
     JObj [(''choices'', JArr [JObj [(''message'', JObj [(''content'', JStr s)])]])]"

lemmas proxy_defs [handler_simps] =
  serve_analyze_def analyze_try_def gateway_reply_def extract_content_def
  error_response_def diagnosis_response_def preflight_response_def json_headers_def

subsection \<open>Lemmas\<close>

lemma gateway_reply_headers:
  "gateway_reply resp = (logs, Inr r) \<Longrightarrow> res_headers r = json_headers"
  by (auto simp: gateway_reply_def error_response_def diagnosis_response_def
           split: if_splits sum.splits)

lemma analyze_try_headers:
  "snd (snd (analyze_try key gw req)) = Inr r \<Longrightarrow> res_headers r = json_headers"
  by (auto simp: analyze_try_def Let_def dest: gateway_reply_headers
           split: sum.splits option.splits if_splits prod.splits)

lemma analyze_try_sent:
  "length (fst (snd (analyze_try key gw req))) \<le> 1"
  by (auto simp: analyze_try_def Let_def split: sum.splits option.splits if_splits prod.splits)

lemma destructure_object:
  "v \<noteq> JUndef \<Longrightarrow> v \<noteq> JNull \<Longrightarrow> \<exists>img. destructure_prop v k = Inr img"
  by (cases v) (auto simp: destructure_prop_def)

text \<open>The handler after the gateway answered: its reply decides the response.\<close>

lemma serve_analyze_forwarded:
  assumes "req_method req \<noteq> ''OPTIONS''" "req_body req = BodyJson v"
    "destructure_prop v ''imageBase64'' = Inr img" "key = Some k" "k \<noteq> []"
    "gw (gateway_request k img) = Responded resp"
  shows "serve_analyze key gw req =
    (case gateway_reply resp of
       (logs, Inr r) \<Rightarrow>
         \<lparr>out_response = r, out_sent = [gateway_request k img],
          out_logs = LogInfo ''Analyzing plant image...'' # logs\<rparr>
     | (logs, Inl e) \<Rightarrow>
         \<lparr>out_response = error_response 500 (exn_message e ''Unknown error occurred''),
          out_sent = [gateway_request k img],
          out_logs = (LogInfo ''Analyzing plant image...'' # logs) @ [LogHandlerError e]\<rparr>)"
  using assms
  by (simp add: serve_analyze_def analyze_try_def body_json_def fetch_outcome_def
           split: prod.splits sum.splits)

lemma array_index_one [simp]: "array_index ''1'' = Some 1"
  by (simp add: array_index_def digits_val_def char_digit_def nat_digits.simps digit_char_def)

text \<open>C14. Every response of the handler, preflight and errors included, carries the CORS headers.\<close>

theorem serve_analyze_cors:
  "\<exists>hs. res_headers (out_response (serve_analyze key gw req)) = corsHeaders @ hs"
proof (cases "req_method req = ''OPTIONS''")
  case True
  then show ?thesis by (simp add: serve_analyze_def preflight_response_def)
next
  case False
  obtain logs sent r where at: "analyze_try key gw req = (logs, sent, r)"
    by (cases "analyze_try key gw req") auto
  show ?thesis
  proof (cases r)
    case (Inl e)
    with False at show ?thesis
      by (simp add: serve_analyze_def error_response_def json_headers_def)
  next
    case (Inr resp)
    with analyze_try_headers [of key gw req resp] at False show ?thesis
      by (simp add: serve_analyze_def json_headers_def)
  qed
qed

text \<open>C16. The handler calls the gateway at most once per request.\<close>

theorem serve_analyze_one_call: "length (out_sent (serve_analyze key gw req)) \<le> 1"
  using analyze_try_sent [of key gw req]
  by (auto simp: serve_analyze_def split: prod.splits sum.splits)

text \<open>C17. A preflight \<open>OPTIONS\<close> request gets status 200, no body, the CORS headers, and no gateway call.\<close>

theorem serve_analyze_preflight:
  assumes "req_method req = ''OPTIONS''"
  shows "res_status (out_response (serve_analyze key gw req)) = 200
       \<and> res_body (out_response (serve_analyze key gw req)) = None
       \<and> res_headers (out_response (serve_analyze key gw req)) = corsHeaders
       \<and> out_sent (serve_analyze key gw req) = []"
  using assms by (simp add: serve_analyze_def preflight_response_def)

theorem serve_analyze_preflight_witness:
  "res_status (out_response (serve_analyze None (\<lambda>_. NetworkError '''')
       \<lparr>req_method = ''OPTIONS'', req_body = BodyMalformed ''''\<rparr>)) = 200"
  using serve_analyze_preflight [of "\<lparr>req_method = ''OPTIONS'', req_body = BodyMalformed ''''\<rparr>"]
  by simp

text \<open>
  C18. With a JSON object as body but no (or an empty) \<open>LOVABLE_API_KEY\<close>, the handler answers
  500 with the message \<open>LOVABLE_API_KEY is not configured\<close> and calls no gateway.
\<close>

theorem serve_analyze_key_missing:
  assumes "req_method req \<noteq> ''OPTIONS''" "req_body req = BodyJson v"
    "v \<noteq> JUndef" "v \<noteq> JNull" "key = None \<or> key = Some []"
  shows "out_response (serve_analyze key gw req) =
           error_response 500 ''LOVABLE_API_KEY is not configured''
       \<and> out_sent (serve_analyze key gw req) = []"
proof -
  obtain img where "destructure_prop v ''imageBase64'' = Inr img"
    using destructure_object [OF assms(3,4)] by blast
  with assms show ?thesis
    by (auto simp: serve_analyze_def analyze_try_def body_json_def key_missing_error_def)
qed

theorem serve_analyze_key_missing_witness:
  "out_response (serve_analyze None (\<lambda>_. NetworkError '''')
      \<lparr>req_method = ''POST'', req_body = BodyJson (JObj [])\<rparr>) =
     error_response 500 ''LOVABLE_API_KEY is not configured''"
  using serve_analyze_key_missing [of "\<lparr>req_method = ''POST'', req_body = BodyJson (JObj [])\<rparr>"
      "JObj []" None "\<lambda>_. NetworkError ''''"]
  by simp

text \<open>
  C19. When the gateway answers 429 or 402, the handler relays that status with its own
  rate-limit or credits message.
\<close>

theorem serve_analyze_throttled:
  assumes "req_method req \<noteq> ''OPTIONS''" "req_body req = BodyJson v"
    "destructure_prop v ''imageBase64'' = Inr img" "key = Some k" "k \<noteq> []"
    "gw (gateway_request k img) = Responded resp" "status resp = 429 \<or> status resp = 402"
  shows "out_response (serve_analyze key gw req) =
           error_response (status resp)
             (if status resp = 429 then rate_limit_msg else credits_msg)"
  using assms(7) serve_analyze_forwarded [of req v img key k gw resp, OF assms(1-6)]
  by (auto simp: gateway_reply_def response_ok_def)

theorem serve_analyze_throttled_witness:
  "out_response (serve_analyze (Some ''k'')
      (\<lambda>_. Responded \<lparr>status = 429, resp_text = '''', resp_json = BodyJson JNull\<rparr>)
      \<lparr>req_method = ''POST'', req_body = BodyJson (JObj [])\<rparr>) =
     error_response 429 rate_limit_msg"
  using serve_analyze_throttled [of "\<lparr>req_method = ''POST'', req_body = BodyJson (JObj [])\<rparr>"
      "JObj []" JUndef "Some ''k''" "''k''"
      "\<lambda>_. Responded \<lparr>status = 429, resp_text = '''', resp_json = BodyJson JNull\<rparr>"
      "\<lparr>status = 429, resp_text = '''', resp_json = BodyJson JNull\<rparr>"]
  by (simp add: destructure_prop_def)

text \<open>
  C20. Any other non-2xx gateway status gives a 500 with the generic message
  \<open>AI analysis failed\<close>, and the gateway's status and body are logged.
\<close>

theorem serve_analyze_gateway_failure:
  assumes "req_method req \<noteq> ''OPTIONS''" "req_body req = BodyJson v"
    "destructure_prop v ''imageBase64'' = Inr img" "key = Some k" "k \<noteq> []"
    "gw (gateway_request k img) = Responded resp" "\<not> response_ok resp"
    "status resp \<noteq> 429" "status resp \<noteq> 402"
  shows "out_response (serve_analyze key gw req) = error_response 500 ''AI analysis failed''
       \<and> LogGatewayError (status resp) (resp_text resp) \<in> set (out_logs (serve_analyze key gw req))"
  using assms(7-9) serve_analyze_forwarded [of req v img key k gw resp, OF assms(1-6)]
  by (simp add: gateway_reply_def)

theorem serve_analyze_gateway_failure_witness:
  "out_response (serve_analyze (Some ''k'')
      (\<lambda>_. Responded \<lparr>status = 503, resp_text = ''down'', resp_json = BodyJson JNull\<rparr>)
      \<lparr>req_method = ''POST'', req_body = BodyJson (JObj [])\<rparr>) =
     error_response 500 ''AI analysis failed''"
  using serve_analyze_gateway_failure [of "\<lparr>req_method = ''POST'', req_body = BodyJson (JObj [])\<rparr>"
      "JObj []" JUndef "Some ''k''" "''k''"
      "\<lambda>_. Responded \<lparr>status = 503, resp_text = ''down'', resp_json = BodyJson JNull\<rparr>"
      "\<lparr>status = 503, resp_text = ''down'', resp_json = BodyJson JNull\<rparr>"]
  by (simp add: destructure_prop_def response_ok_def)

text \<open>
  C21. On a 2xx gateway answer whose \<open>choices[0].message.content\<close> is \<open>c\<close>, the handler
  answers 200 with \<open>{diagnosis: c}\<close>, \<open>c\<close> passed through unchanged.
\<close>

theorem serve_analyze_passthrough:
  assumes "req_method req \<noteq> ''OPTIONS''" "req_body req = BodyJson v"
    "destructure_prop v ''imageBase64'' = Inr img" "key = Some k" "k \<noteq> []"
    "gw (gateway_request k img) = Responded resp" "response_ok resp"
    "resp_json resp = BodyJson data" "extract_content data = Inr c"
  shows "out_response (serve_analyze key gw req) = diagnosis_response c
       \<and> res_body (out_response (serve_analyze key gw req)) = Some (JObj [(''diagnosis'', c)])"
  using assms(7-9) serve_analyze_forwarded [of req v img key k gw resp, OF assms(1-6)]
  by (simp add: gateway_reply_def response_json_def body_json_def diagnosis_response_def)

theorem serve_analyze_passthrough_witness:
  "res_body (out_response (serve_analyze (Some ''k'')
      (\<lambda>_. Responded \<lparr>status = 200, resp_text = '''', resp_json = BodyJson (sample_completion ''Leaf Blight'')\<rparr>)
      \<lparr>req_method = ''POST'', req_body = BodyJson (JObj [])\<rparr>)) =
     Some (JObj [(''diagnosis'', JStr ''Leaf Blight'')])"
  using serve_analyze_passthrough [of "\<lparr>req_method = ''POST'', req_body = BodyJson (JObj [])\<rparr>"
      "JObj []" JUndef "Some ''k''" "''k''"
      "\<lambda>_. Responded \<lparr>status = 200, resp_text = '''', resp_json = BodyJson (sample_completion ''Leaf Blight'')\<rparr>"
      "\<lparr>status = 200, resp_text = '''', resp_json = BodyJson (sample_completion ''Leaf Blight'')\<rparr>"
      "sample_completion ''Leaf Blight''" "JStr ''Leaf Blight''"]
  by (simp add: destructure_prop_def response_ok_def extract_content_def sample_completion_def
      diagnosis_response_def)

text \<open>
  C23. A request body that is not JSON is answered 500 with the parser's message, whatever
  the key: the body is read before the key is checked, and no gateway is called.
\<close>

theorem serve_analyze_malformed_body:
  assumes "req_method req \<noteq> ''OPTIONS''" "req_body req = BodyMalformed m"
  shows "out_response (serve_analyze key gw req) = error_response 500 m
       \<and> out_sent (serve_analyze key gw req) = []"
  using assms by (simp add: serve_analyze_def analyze_try_def body_json_def)

theorem serve_analyze_malformed_body_witness:
  "out_response (serve_analyze None (\<lambda>_. NetworkError '''')
      \<lparr>req_method = ''POST'', req_body = BodyMalformed ''Unexpected end of JSON input''\<rparr>) =
     error_response 500 ''Unexpected end of JSON input''"
  using serve_analyze_malformed_body
      [of "\<lparr>req_method = ''POST'', req_body = BodyMalformed ''Unexpected end of JSON input''\<rparr>"]
  by simp

lemma gateway_request_shape:
  "map_of (gw_headers (gateway_request k img)) ''Authorization'' = Some (''Bearer '' @ k)
   \<and> sbind (get_prop (gw_body (gateway_request k img)) ''messages'') (\<lambda>ms.
     sbind (get_prop ms ''1'') (\<lambda>m. sbind (get_prop m ''content'') (\<lambda>cs.
     sbind (get_prop cs ''1'') (\<lambda>c. sbind (get_prop c ''image_url'') (\<lambda>u.
     get_prop u ''url''))))) = Inr img"
  by (simp add: gateway_request_def gateway_body_def)

text \<open>The only request the handler sends is built from the key and the body's \<open>imageBase64\<close>.\<close>

lemma analyze_try_sent_from:
  assumes "u \<in> set (fst (snd (analyze_try key gw req)))"
  shows "\<exists>k v img. key = Some k \<and> k \<noteq> [] \<and> req_body req = BodyJson v \<and>
           destructure_prop v ''imageBase64'' = Inr img \<and>
           fst (snd (analyze_try key gw req)) = [gateway_request k img] \<and> u = gateway_request k img"
  using assms
  by (auto simp: analyze_try_def Let_def split: sum.splits option.splits if_splits prod.splits)

lemma analyze_try_reply:
  assumes "snd (snd (analyze_try key gw req)) = Inr r"
  shows "\<exists>k v img resp. key = Some k \<and> k \<noteq> [] \<and> req_body req = BodyJson v \<and>
           destructure_prop v ''imageBase64'' = Inr img \<and>
           fst (snd (analyze_try key gw req)) = [gateway_request k img] \<and>
           gw (gateway_request k img) = Responded resp \<and> snd (gateway_reply resp) = Inr r"
  using assms
  by (auto simp: analyze_try_def Let_def fetch_outcome_def
           split: sum.splits option.splits if_splits prod.splits fetch_result.splits)

lemma serve_analyze_sent:
  "out_sent (serve_analyze key gw req) =
     (if req_method req = ''OPTIONS'' then [] else fst (snd (analyze_try key gw req)))"
  by (auto simp: serve_analyze_def split: prod.splits sum.splits)

lemma gateway_reply_diagnosis:
  assumes "snd (gateway_reply resp) = Inr (diagnosis_response d)"
  shows "response_ok resp \<and> sbind (response_json resp) extract_content = Inr d"
  using assms
  by (auto simp: gateway_reply_def error_response_def diagnosis_response_def split: if_splits sum.splits)

lemma serve_analyze_diagnosis_try:
  assumes "out_response (serve_analyze key gw req) = diagnosis_response d"
  shows "req_method req \<noteq> ''OPTIONS'' \<and> snd (snd (analyze_try key gw req)) = Inr (diagnosis_response d)"
  using assms
  by (auto simp: serve_analyze_def preflight_response_def error_response_def diagnosis_response_def
           split: prod.splits sum.splits if_splits)

text \<open>
  C15. A diagnosis answer is the gateway's: when the handler answers \<open>{diagnosis: d}\<close>, the
  key was set, exactly one request was sent to the gateway, built from the key and the
  request body's \<open>imageBase64\<close>, the gateway answered 2xx, and \<open>d\<close> is the
  \<open>choices[0].message.content\<close> of its JSON body.
\<close>

theorem serve_analyze_diagnosis_origin:
  assumes "out_response (serve_analyze key gw req) = diagnosis_response d"
  shows "\<exists>k v img resp. key = Some k \<and> req_body req = BodyJson v \<and>
           destructure_prop v ''imageBase64'' = Inr img \<and>
           out_sent (serve_analyze key gw req) = [gateway_request k img] \<and>
           gw (gateway_request k img) = Responded resp \<and> response_ok resp \<and>
           sbind (response_json resp) extract_content = Inr d"
proof -
  have t: "req_method req \<noteq> ''OPTIONS''" "snd (snd (analyze_try key gw req)) = Inr (diagnosis_response d)"
    using serve_analyze_diagnosis_try [OF assms] by simp_all
  obtain k v img resp where r: "key = Some k" "req_body req = BodyJson v"
      "destructure_prop v ''imageBase64'' = Inr img"
      "fst (snd (analyze_try key gw req)) = [gateway_request k img]"
      "gw (gateway_request k img) = Responded resp" "snd (gateway_reply resp) = Inr (diagnosis_response d)"
    using analyze_try_reply [OF t(2)] by blast
  show ?thesis
    using r gateway_reply_diagnosis [OF r(6)] t(1) by (auto simp: serve_analyze_sent)
qed

theorem serve_analyze_diagnosis_origin_witness:
  "\<exists>k v img resp. Some ''k'' = Some k \<and>
     BodyJson (JObj [(''imageBase64'', JStr ''abc'')]) = BodyJson v \<and>
     destructure_prop v ''imageBase64'' = Inr img \<and>
     out_sent (serve_analyze (Some ''k'')
        (\<lambda>_. Responded \<lparr>status = 200, resp_text = '''', resp_json = BodyJson (sample_completion ''Leaf Blight'')\<rparr>)
        \<lparr>req_method = ''POST'', req_body = BodyJson (JObj [(''imageBase64'', JStr ''abc'')])\<rparr>) =
       [gateway_request k img] \<and>
     Responded \<lparr>status = 200, resp_text = '''', resp_json = BodyJson (sample_completion ''Leaf Blight'')\<rparr> =
       Responded resp \<and> response_ok resp \<and>
     sbind (response_json resp) extract_content = Inr (JStr ''Leaf Blight'')"
proof -
  let ?gw = "\<lambda>_ :: gateway_request. Responded \<lparr>status = 200, resp_text = '''',
                resp_json = BodyJson (sample_completion ''Leaf Blight'')\<rparr>"
  let ?req = "\<lparr>req_method = ''POST'', req_body = BodyJson (JObj [(''imageBase64'', JStr ''abc'')])\<rparr>"
  have "out_response (serve_analyze (Some ''k'') ?gw ?req) = diagnosis_response (JStr ''Leaf Blight'')"
    by (simp add: serve_analyze_def analyze_try_def destructure_prop_def gateway_reply_def js_simps
        extract_content_def sample_completion_def)
  from serve_analyze_diagnosis_origin [OF this] show ?thesis by simp
qed

text \<open>
  C24. Every request the handler sends to the gateway carries the configured key as a bearer
  token and, as \<open>messages[1].content[1].image_url.url\<close>, the \<open>imageBase64\<close> of the request
  body verbatim.
\<close>

theorem serve_analyze_forwards_image:
  assumes "u \<in> set (out_sent (serve_analyze key gw req))"
  shows "\<exists>k v. key = Some k \<and> req_body req = BodyJson v \<and>
           map_of (gw_headers u) ''Authorization'' = Some (''Bearer '' @ k) \<and>
           sbind (get_prop (gw_body u) ''messages'') (\<lambda>ms.
             sbind (get_prop ms ''1'') (\<lambda>m. sbind (get_prop m ''content'') (\<lambda>cs.
             sbind (get_prop cs ''1'') (\<lambda>c. sbind (get_prop c ''image_url'') (\<lambda>w.
             get_prop w ''url''))))) = destructure_prop v ''imageBase64''"
proof -
  have "u \<in> set (fst (snd (analyze_try key gw req)))"
    using assms by (simp add: serve_analyze_sent split: if_splits)
  then obtain k v img where "key = Some k" "req_body req = BodyJson v"
      "destructure_prop v ''imageBase64'' = Inr img" "u = gateway_request k img"
    using analyze_try_sent_from by blast
  then show ?thesis using gateway_request_shape [of k img] by auto
qed

theorem serve_analyze_forwards_image_witness:
  "\<exists>k v. Some ''k'' = Some k \<and> BodyJson (JObj [(''imageBase64'', JStr ''abc'')]) = BodyJson v \<and>
     map_of (gw_headers (gateway_request ''k'' (JStr ''abc''))) ''Authorization'' = Some (''Bearer '' @ k) \<and>
     sbind (get_prop (gw_body (gateway_request ''k'' (JStr ''abc''))) ''messages'') (\<lambda>ms.
       sbind (get_prop ms ''1'') (\<lambda>m. sbind (get_prop m ''content'') (\<lambda>cs.
       sbind (get_prop cs ''1'') (\<lambda>c. sbind (get_prop c ''image_url'') (\<lambda>w.
       get_prop w ''url''))))) = destructure_prop v ''imageBase64''"
proof -
  let ?req = "\<lparr>req_method = ''POST'', req_body = BodyJson (JObj [(''imageBase64'', JStr ''abc'')])\<rparr>"
  have "gateway_request ''k'' (JStr ''abc'') \<in> set (out_sent (serve_analyze (Some ''k'') (\<lambda>_. NetworkError '''') ?req))"
    by (simp add: serve_analyze_def analyze_try_def destructure_prop_def js_simps)
  from serve_analyze_forwards_image [OF this] show ?thesis by simp
qed

text \<open>
  C22. A 2xx completion whose message has no \<open>content\<close> is answered 200 with the text
  \<open>{}\<close>: \<open>JSON.stringify\<close> drops the \<open>undefined\<close> diagnosis, and the client finds no
  \<open>diagnosis\<close> and no \<open>error\<close> in the body.
\<close>

theorem serve_analyze_missing_content:
  assumes "req_method req \<noteq> ''OPTIONS''" "req_body req = BodyJson v"
    "destructure_prop v ''imageBase64'' = Inr img" "key = Some k" "k \<noteq> []"
    "gw (gateway_request k img) = Responded resp" "response_ok resp"
    "resp_json resp = BodyJson data" "extract_content data = Inr JUndef"
  shows "res_status (out_response (serve_analyze key gw req)) = 200 \<and>
         json_stringify (the (res_body (out_response (serve_analyze key gw req)))) = Some ''{}''"
  using assms(7-9) serve_analyze_forwarded [of req v img key k gw resp, OF assms(1-6)]
  by (simp add: gateway_reply_def response_json_def body_json_def diagnosis_response_def)

theorem serve_analyze_missing_content_witness:
  "res_status (out_response (serve_analyze (Some ''key'')
      (\<lambda>_. Responded \<lparr>status = 200, resp_text = '''',
             resp_json = BodyJson (JObj [(''choices'', JArr [JObj [(''message'', JObj [])]])])\<rparr>)
      \<lparr>req_method = ''POST'', req_body = BodyJson (JObj [(''imageBase64'', JStr ''abc'')])\<rparr>)) = 200 \<and>
   json_stringify (the (res_body (out_response (serve_analyze (Some ''key'')
      (\<lambda>_. Responded \<lparr>status = 200, resp_text = '''',
             resp_json = BodyJson (JObj [(''choices'', JArr [JObj [(''message'', JObj [])]])])\<rparr>)
      \<lparr>req_method = ''POST'', req_body = BodyJson (JObj [(''imageBase64'', JStr ''abc'')])\<rparr>)))) =
     Some ''{}''"
  by (rule serve_analyze_missing_content [where v = "JObj [(''imageBase64'', JStr ''abc'')]"
        and img = "JStr ''abc''" and k = "''key''"
        and resp = "\<lparr>status = 200, resp_text = '''',
             resp_json = BodyJson (JObj [(''choices'', JArr [JObj [(''message'', JObj [])]])])\<rparr>"
        and data = "JObj [(''choices'', JArr [JObj [(''message'', JObj [])]])]"])
     (simp_all add: destructure_prop_def response_ok_def extract_content_def)

end
