(* ===== verification/IndexPage.thy ===== *)
theory IndexPage
  imports WebApi
begin

text \<open>
  The page \<open>Frontend/src/pages/Index.tsx\<close>: its four pieces of React state, the callback
  \<open>handleImageSelect\<close> that \<open>ImageUpload\<close> calls, the asynchronous \<open>handleAnalyze\<close> split at
  its \<open>await\<close> into the click (\<open>handleAnalyze\<close>, up to the \<open>fetch\<close>) and the completion
  (\<open>analyze_done\<close>, from the answer to the \<open>finally\<close>), and the conditions under which the
  page renders the analyze button and the report. Awaiting \<open>response.json()\<close> is folded into
  the completion: nothing changes state between the two awaits.
\<close>

subsection \<open>State and constants\<close>

record page_state =
  selectedFile :: "js_file option"
  selectedImage :: "string option"
  isAnalyzing :: bool
  diagnosis :: "string option"

definition init_page :: page_state where
  "init_page = \<lparr>selectedFile = None, selectedImage = None, isAnalyzing = False, diagnosis = None\<rparr>"

definition predict_url :: string where
  "predict_url = ''http://localhost:5000/predict''"

definition no_image_toast :: toast where
  "no_image_toast = \<lparr>toast_title = ''No image selected'',
     toast_description = ''Please select an image first'', toast_destructive = True\<rparr>"

definition complete_toast :: toast where
  "complete_toast = \<lparr>toast_title = ''Analysis Complete'',
     toast_description = ''Your plant health report is ready'', toast_destructive = False\<rparr>"

definition failed_toast :: "string \<Rightarrow> toast" where
  "failed_toast m = \<lparr>toast_title = ''Analysis Failed'', toast_description = m,
     toast_destructive = True\<rparr>"

subsection \<open>Handlers\<close>

definition handleImageSelect :: "js_file \<Rightarrow> string \<Rightarrow> page_state \<Rightarrow> page_state" where
  "handleImageSelect f preview s =
     s\<lparr>selectedFile := Some f, selectedImage := Some preview, diagnosis := None\<rparr>"

text \<open>The click: the early return, or the state set before the \<open>fetch\<close> and the request.\<close>

definition handleAnalyze :: "page_state \<Rightarrow> page_state \<times> effect list \<times> js_file option" where
  "handleAnalyze s =
     (case selectedFile s of
        None \<Rightarrow> (s, [ShowToast no_image_toast], None)
      | Some f \<Rightarrow> (s\<lparr>isAnalyzing := True, diagnosis := None\<rparr>, [PostImage predict_url f], Some f))"

text \<open>\<open>(data.confidence * 100).toFixed(2)\<close> (line 51).\<close>

definition confidence_percent :: "jsval \<Rightarrow> string" where
  "confidence_percent c = to_fixed 2 (js_mul (js_to_number c) (Fin 100))"

text \<open>The template literal of lines 49 to 52, with its line breaks and indentation, trimmed.\<close>

definition report_template :: "jsval \<Rightarrow> jsval \<Rightarrow> string" where
  "report_template p c =
     js_trim ([CHR 0x0A] @ ''Disease: '' @ js_to_string p @ [CHR 0x0A] @
              ''Confidence: '' @ confidence_percent c @ ''%'' @ [CHR 0x0A] @ ''      '')"

text \<open>The \<open>try\<close> block after the \<open>fetch\<close> (lines 45 to 52): the report text or the exception.\<close>

definition analysis_outcome :: "fetch_result \<Rightarrow> js_exn + string" where
  "analysis_outcome r =
     sbind (fetch_outcome r) (\<lambda>resp.
     sbind (response_json resp) (\<lambda>data.
       if \<not> response_ok resp
       then sbind (get_prop data ''error'') (\<lambda>e.
              Inl (JsError PlainError (error_message_of (js_or e (JStr ''Server error'')))))
       else sbind (get_prop data ''prediction'') (\<lambda>p.
            sbind (get_prop data ''confidence'') (\<lambda>c.
              Inr (report_template p c)))))"

text \<open>The completion: the report and its toast, or the failure toast; \<open>finally\<close> clears the flag.\<close>

definition analyze_done :: "fetch_result \<Rightarrow> page_state \<Rightarrow> page_state \<times> effect list" where
  "analyze_done r s =
     (case analysis_outcome r of
        Inr txt \<Rightarrow> (s\<lparr>diagnosis := Some txt, isAnalyzing := False\<rparr>, [ShowToast complete_toast])
      | Inl e \<Rightarrow> (s\<lparr>isAnalyzing := False\<rparr>, [ShowToast (failed_toast (exn_message e []))]))"

subsection \<open>Rendering\<close>

text \<open>A \<open>string | null\<close> in a JSX condition: truthy when present and not empty.\<close>

definition opt_truthy :: "string option \<Rightarrow> bool" where
  "opt_truthy v = (case v of None \<Rightarrow> False | Some x \<Rightarrow> x \<noteq> [])"

record page_view =
  upload_image :: "string option"
  analyze_button :: "(bool \<times> string) option"
  report :: "(string \<times> string) option"

text \<open>
  Lines 104 to 134: the image handed to \<open>ImageUpload\<close>; the analyze button (its
  \<open>disabled\<close> flag and label) when an image and no diagnosis are present; the report when both
  are.
\<close>

definition render_page :: "page_state \<Rightarrow> page_view" where
  "render_page s =
     \<lparr>upload_image = selectedImage s,
      analyze_button =
        (if opt_truthy (selectedImage s) \<and> \<not> opt_truthy (diagnosis s)
         then Some (isAnalyzing s, if isAnalyzing s then ''Analyzing Plant...'' else ''Analyze Image'')
         else None),
      report =
        (case (diagnosis s, selectedImage s) of
           (Some d, Some i) \<Rightarrow> (if d \<noteq> [] \<and> i \<noteq> [] then Some (d, i) else None)
         | _ \<Rightarrow> None)\<rparr>"

lemmas page_defs [handler_simps] =
  handleImageSelect_def handleAnalyze_def analyze_done_def analysis_outcome_def render_page_def
  opt_truthy_def

subsection \<open>Lemmas\<close>

lemma report_template_eq:
  "report_template p c =
     ''Disease: '' @ js_to_string p @ [CHR 0x0A] @ ''Confidence: '' @ confidence_percent c @ ''%''"
proof -
  have "js_trim ([CHR 0x0A] @ (''Disease: '' @ js_to_string p @ [CHR 0x0A] @ ''Confidence: '' @
          confidence_percent c @ ''%'') @ [CHR 0x0A] @ ''      '') =
        ''Disease: '' @ js_to_string p @ [CHR 0x0A] @ ''Confidence: '' @ confidence_percent c @ ''%''"
    by (rule js_trim_strip) (simp_all add: js_whitespace_def)
  then show ?thesis by (simp add: report_template_def)
qed

lemma analysis_outcome_ok:
  assumes "response_ok resp" "resp_json resp = BodyJson data"
    "get_prop data ''prediction'' = Inr p" "get_prop data ''confidence'' = Inr c"
  shows "analysis_outcome (Responded resp) = Inr (report_template p c)"
  using assms by (simp add: analysis_outcome_def fetch_outcome_def response_json_def body_json_def)

lemma analysis_outcome_not_ok:
  assumes "\<not> response_ok resp" "resp_json resp = BodyJson data"
  shows "analysis_outcome (Responded resp) =
           sbind (get_prop data ''error'') (\<lambda>e.
             Inl (JsError PlainError (error_message_of (js_or e (JStr ''Server error'')))))"
  using assms by (simp add: analysis_outcome_def fetch_outcome_def response_json_def body_json_def)

lemma confidence_percent_num:
  "confidence_percent (JNum (Fin x)) = to_fixed 2 (Fin (100 * x))"
  by (simp add: confidence_percent_def mult.commute)

text \<open>
  C7. When the endpoint answers 2xx with a JSON body whose \<open>prediction\<close> is \<open>p\<close> and whose
  \<open>confidence\<close> is \<open>c\<close>, the analysis sets the diagnosis to the two lines
  \<open>Disease: p\<close> and \<open>Confidence: (c*100).toFixed(2)%\<close>, clears the analyzing flag and toasts
  success.
\<close>

theorem analyze_done_success:
  assumes "response_ok resp" "resp_json resp = BodyJson data"
    "get_prop data ''prediction'' = Inr p" "get_prop data ''confidence'' = Inr c"
  shows "analyze_done (Responded resp) s =
     (s\<lparr>diagnosis := Some (''Disease: '' @ js_to_string p @ [CHR 0x0A] @
                           ''Confidence: '' @ confidence_percent c @ ''%''),
        isAnalyzing := False\<rparr>,
      [ShowToast complete_toast])"
  using analysis_outcome_ok [OF assms] by (simp add: analyze_done_def report_template_eq)

definition leaf_blight :: jsval where
  "leaf_blight = JObj [(''prediction'', JStr ''Leaf Blight''), (''confidence'', JNum (Fin 0.92))]"

theorem analyze_done_success_witness:
  "fst (analyze_done (Responded \<lparr>status = 200, resp_text = '''', resp_json = BodyJson leaf_blight\<rparr>)
         init_page) =
     init_page\<lparr>diagnosis := Some (''Disease: Leaf Blight'' @ [CHR 0x0A] @ ''Confidence: 92.00%'')\<rparr>"
proof -
  have "confidence_percent (JNum (Fin 0.92)) = ''92.00''"
    by (simp add: confidence_percent_num js_simps split del: if_split)
  then show ?thesis
    using analyze_done_success [of "\<lparr>status = 200, resp_text = '''', resp_json = BodyJson leaf_blight\<rparr>"
        leaf_blight "JStr ''Leaf Blight''" "JNum (Fin 0.92)" init_page]
    by (simp add: response_ok_def leaf_blight_def init_page_def)
qed


text \<open>
  C9. A non-2xx answer fails the analysis with the body's \<open>error\<close> text, or
  \<open>Server error\<close> when the body has none, clears the analyzing flag and leaves the diagnosis
  as it was.
\<close>

theorem analyze_done_server_error:
  assumes "\<not> response_ok resp" "resp_json resp = BodyJson (JObj kvs)"
  shows "analyze_done (Responded resp) s =
     (s\<lparr>isAnalyzing := False\<rparr>,
      [ShowToast (failed_toast (case map_of kvs ''error'' of
                                  Some (JStr m) \<Rightarrow> (if m = [] then ''Server error'' else m)
                                | Some v \<Rightarrow> error_message_of (js_or v (JStr ''Server error''))
                                | None \<Rightarrow> ''Server error''))])"
  using analysis_outcome_not_ok [OF assms]
  by (auto simp: analyze_done_def error_message_of_def split: option.split jsval.split)

theorem analyze_done_server_error_witness:
  "analyze_done (Responded \<lparr>status = 500, resp_text = '''',
                   resp_json = BodyJson (JObj [(''error'', JStr ''Model not loaded'')])\<rparr>) init_page =
     (init_page, [ShowToast (failed_toast ''Model not loaded'')])"
  using analyze_done_server_error [of "\<lparr>status = 500, resp_text = '''',
                   resp_json = BodyJson (JObj [(''error'', JStr ''Model not loaded'')])\<rparr>"
      "[(''error'', JStr ''Model not loaded'')]" init_page]
  by (simp add: response_ok_def init_page_def)


text \<open>
  C10. The page does not tell the upstream statuses apart: two non-2xx answers with the same
  body (a 429, say, and a 500) end the analysis in the same state with the same toast.
\<close>

theorem analyze_done_status_blind:
  assumes "\<not> response_ok r1" "\<not> response_ok r2" "resp_json r1 = resp_json r2"
  shows "analyze_done (Responded r1) s = analyze_done (Responded r2) s"
  using assms by (simp add: analyze_done_def analysis_outcome_def fetch_outcome_def response_json_def)

theorem analyze_done_status_blind_witness:
  "analyze_done (Responded \<lparr>status = 429, resp_text = '''',
                   resp_json = BodyJson (JObj [(''error'', JStr ''Too many requests'')])\<rparr>) init_page =
   analyze_done (Responded \<lparr>status = 500, resp_text = '''',
                   resp_json = BodyJson (JObj [(''error'', JStr ''Too many requests'')])\<rparr>) init_page"
  by (rule analyze_done_status_blind) (simp_all add: response_ok_def)

lemma analyze_done_network_error:
  "analyze_done (NetworkError m) s = (s\<lparr>isAnalyzing := False\<rparr>, [ShowToast (failed_toast m)])"
  by (simp add: analyze_done_def analysis_outcome_def fetch_outcome_def)

text \<open>
  C29. A 2xx answer of the form \<open>{diagnosis: d}\<close>, which the interface section names as a
  success body, is rendered as \<open>Disease: undefined\<close> and \<open>Confidence: NaN%\<close>: the page reads
  only \<open>prediction\<close> and \<open>confidence\<close>.
\<close>

theorem analyze_done_diagnosis_body:
  assumes "response_ok resp" "resp_json resp = BodyJson (JObj [(''diagnosis'', JStr d)])"
  shows "fst (analyze_done (Responded resp) s) =
     s\<lparr>diagnosis := Some (''Disease: undefined'' @ [CHR 0x0A] @ ''Confidence: NaN%''),
       isAnalyzing := False\<rparr>"
proof -
  have "confidence_percent JUndef = ''NaN''"
    by (simp add: confidence_percent_def js_simps split del: if_split)
  then show ?thesis
    using assms by (simp add: analyze_done_def analysis_outcome_def js_simps report_template_eq)
qed

theorem analyze_done_diagnosis_body_witness:
  "fst (analyze_done (Responded \<lparr>status = 200, resp_text = '''',
          resp_json = BodyJson (JObj [(''diagnosis'', JStr ''Leaf Blight'')])\<rparr>) init_page) =
     init_page\<lparr>diagnosis := Some (''Disease: undefined'' @ [CHR 0x0A] @ ''Confidence: NaN%'')\<rparr>"
  using analyze_done_diagnosis_body [of "\<lparr>status = 200, resp_text = '''',
          resp_json = BodyJson (JObj [(''diagnosis'', JStr ''Leaf Blight'')])\<rparr>" "''Leaf Blight''" init_page]
  by (simp add: response_ok_def init_page_def)

end
