(* ===== verification/ImageUpload.thy ===== *)
theory ImageUpload
  imports WebApi
begin

text \<open>
  The component \<open>src/components/ImageUpload.tsx\<close>: its two state hooks, the drag handlers,
  the file input, and \<open>processFile\<close>, which starts a \<open>FileReader\<close> whose \<open>onload\<close> posts the
  file to the local Flask endpoint and hands file, preview and server result to the parent's
  \<open>onImageSelect\<close>. The parent is a parameter: its state is the type variable \<open>'p\<close> and
  \<open>onImageSelect\<close> a function on it, so the lemmas here hold for any parent. \<open>processFile\<close>
  and the \<open>onload\<close> callback are asynchronous; each handler returns the work it leaves
  pending (a file to read) and the composition in \<open>App\<close> schedules it.
\<close>

subsection \<open>State and constants\<close>

record upload_state =
  isDragging :: bool
  loading :: bool

definition init_upload :: upload_state where
  "init_upload = \<lparr>isDragging = False, loading = False\<rparr>"

definition upload_url :: string where
  "upload_url = ''http://127.0.0.1:5000/predict''"

definition backend_alert :: string where
  "backend_alert = ''Failed to connect to backend. Make sure Flask is running.''"

text \<open>The parent's callback \<open>onImageSelect(file, preview, result)\<close>.\<close>

type_synonym 'p on_image_select = "js_file \<Rightarrow> string \<Rightarrow> jsval \<Rightarrow> 'p \<Rightarrow> 'p"

subsection \<open>Handlers\<close>

definition handleDragOver :: "upload_state \<Rightarrow> upload_state" where
  "handleDragOver s = s\<lparr>isDragging := True\<rparr>"

definition handleDragLeave :: "upload_state \<Rightarrow> upload_state" where
  "handleDragLeave s = s\<lparr>isDragging := False\<rparr>"

text \<open>
  \<open>e.dataTransfer.files[0]\<close>: the first dropped file, kept only when its MIME type starts
  with \<open>image/\<close>; the result is the file handed to \<open>processFile\<close>, if any.
\<close>

definition handleDrop :: "js_file list \<Rightarrow> upload_state \<Rightarrow> upload_state \<times> js_file option" where
  "handleDrop fs s =
     (s\<lparr>isDragging := False\<rparr>,
      (case fs of
         [] \<Rightarrow> None
       | f # _ \<Rightarrow> if starts_with (file_type f) ''image/'' then Some f else None))"

text \<open>
  \<open>e.target.files?.[0]\<close>: the first chosen file, whatever its type (the input's
  \<open>accept="image/*"\<close> only preselects the picker's filter).
\<close>

definition handleFileSelect :: "js_file list \<Rightarrow> js_file option" where
  "handleFileSelect fs = (case fs of [] \<Rightarrow> None | f # _ \<Rightarrow> Some f)"

definition handleButtonClick :: "effect list" where
  "handleButtonClick = [OpenFilePicker]"

text \<open>
  \<open>reader.onload\<close> up to its \<open>await fetch\<close>: the preview is the data URL of the file,
  \<open>loading\<close> is set and the file is posted. The result is the new state, the request and the
  preview the continuation keeps.
\<close>

definition reader_onload :: "js_file \<Rightarrow> upload_state \<Rightarrow> upload_state \<times> effect list \<times> string" where
  "reader_onload f s = (s\<lparr>loading := True\<rparr>, [PostImage upload_url f], read_as_data_url f)"

text \<open>
  The rest of \<open>onload\<close> (lines 62 to 71): \<open>res.json()\<close>, the log, the parent's callback
  whatever the status; on a rejected \<open>fetch\<close> or a body that is not JSON the error log and the
  alert; then \<open>loading\<close> cleared.
\<close>

definition upload_done ::
  "'p on_image_select \<Rightarrow> js_file \<Rightarrow> string \<Rightarrow> fetch_result \<Rightarrow> upload_state \<times> 'p \<Rightarrow>
   (upload_state \<times> 'p) \<times> effect list" where
  "upload_done cb f preview r sp =
     (case sbind (fetch_outcome r) response_json of
        Inr result \<Rightarrow>
          ((fst sp\<lparr>loading := False\<rparr>, cb f preview result (snd sp)),
           [ConsoleLog ''SERVER RESULT:'' result])
      | Inl err \<Rightarrow>
          ((fst sp\<lparr>loading := False\<rparr>, snd sp),
           [ConsoleError ''UPLOAD ERROR:'' err, Alert backend_alert]))"

subsection \<open>Rendering\<close>

record upload_view =
  highlighted :: bool
  shown_image :: "string option"
  processing_overlay :: bool
  select_label :: string

text \<open>
  Lines 81 to 150, given the parent's \<open>selectedImage\<close>: the highlight while dragging, the
  image with the ``Processing...'' overlay and ``Select Different Image'' when an image is
  selected, the empty drop zone with ``Select Image'' otherwise.
\<close>

definition render_upload :: "string option \<Rightarrow> upload_state \<Rightarrow> upload_view" where
  "render_upload sel s =
     (case sel of
        Some img \<Rightarrow>
          if img \<noteq> []
          then \<lparr>highlighted = isDragging s, shown_image = Some img, processing_overlay = loading s,
                select_label = ''Select Different Image''\<rparr>
          else \<lparr>highlighted = isDragging s, shown_image = None, processing_overlay = False,
                select_label = ''Select Image''\<rparr>
      | None \<Rightarrow> \<lparr>highlighted = isDragging s, shown_image = None, processing_overlay = False,
                select_label = ''Select Image''\<rparr>)"

lemmas upload_defs [handler_simps] =
  handleDragOver_def handleDragLeave_def handleDrop_def handleFileSelect_def reader_onload_def
  upload_done_def


subsection \<open>Lemmas\<close>

lemma upload_done_loading [simp]: "loading (fst (fst (upload_done cb f pv r sp))) = False"
  by (simp add: upload_done_def split: sum.split)

lemma upload_done_dragging [simp]: "isDragging (fst (fst (upload_done cb f pv r sp))) = isDragging (fst sp)"
  by (simp add: upload_done_def split: sum.split)

lemma upload_done_parent:
  "snd (fst (upload_done cb f pv r sp)) = snd sp \<or>
   (\<exists>v. snd (fst (upload_done cb f pv r sp)) = cb f pv v (snd sp))"
  by (auto simp: upload_done_def split: sum.split)

lemma handleDrop_image_only:
  assumes "handleDrop fs s = (s', Some f)"
  shows "starts_with (file_type f) ''image/'' \<and> f = hd fs \<and> \<not> isDragging s'"
  using assms by (auto simp: handleDrop_def split: list.splits if_splits)

lemma upload_done_network_error:
  "upload_done cb f pv (NetworkError m) (s, p) =
     ((s\<lparr>loading := False\<rparr>, p), [ConsoleError ''UPLOAD ERROR:'' (JsError TypeError m), Alert backend_alert])"
  by (simp add: upload_done_def fetch_outcome_def)

lemma upload_done_any_status:
  assumes "resp_json resp = BodyJson v"
  shows "upload_done cb f pv (Responded resp) (s, p) =
           ((s\<lparr>loading := False\<rparr>, cb f pv v p), [ConsoleLog ''SERVER RESULT:'' v])"
  using assms by (simp add: upload_done_def fetch_outcome_def response_json_def body_json_def)

end
