(* ===== verification/App.thy ===== *)
theory App
  imports IndexPage ImageUpload
begin

text \<open>
  The running application: the page of \<open>Index.tsx\<close> with the \<open>ImageUpload\<close> it renders,
  wired as the source wires them (\<open>onImageSelect={handleImageSelect}\<close>,
  \<open>selectedImage={selectedImage}\<close>), and the asynchronous work in flight. A pending job is
  a \<open>FileReader\<close> not yet loaded, an upload \<open>fetch\<close> or an analysis \<open>fetch\<close> not yet
  settled. The browser's event loop is the step function \<open>app_step\<close>: a user event, or the
  completion of any one pending job, in any order, with the answer the environment chooses.
  A user can click the analyze button only when it is rendered and enabled.
\<close>

subsection \<open>State, events and the step function\<close>

datatype job = ReadJob js_file | UploadJob js_file string | AnalyzeJob js_file

record app =
  page :: page_state
  upload :: upload_state
  jobs :: "job list"

definition init_app :: app where
  "init_app = \<lparr>page = init_page, upload = init_upload, jobs = []\<rparr>"

datatype event =
    DragOver
  | DragLeave
  | Drop "js_file list"
  | ChooseFiles "js_file list"
  | ClickSelect
  | ClickAnalyze
  | ReaderLoaded nat
  | FetchDone nat fetch_result

text \<open>\<open>onImageSelect={handleImageSelect}\<close>: the page's handler ignores the third argument.\<close>

definition page_select :: "page_state on_image_select" where
  "page_select f pv result p = handleImageSelect f pv p"

text \<open>\<open>processFile\<close>: \<open>reader.readAsDataURL(file)\<close> leaves a pending read.\<close>

definition processFile :: "js_file option \<Rightarrow> app \<Rightarrow> app" where
  "processFile fo a = (case fo of None \<Rightarrow> a | Some f \<Rightarrow> a\<lparr>jobs := jobs a @ [ReadJob f]\<rparr>)"

definition analyze_enabled :: "page_state \<Rightarrow> bool" where
  "analyze_enabled p = (case analyze_button (render_page p) of Some (disabled, _) \<Rightarrow> \<not> disabled | None \<Rightarrow> False)"

definition click_analyze :: "app \<Rightarrow> (app \<times> effect list) option" where
  "click_analyze a =
     (if analyze_enabled (page a) then
        (case handleAnalyze (page a) of
           (p, eff, fo) \<Rightarrow>
             Some (a\<lparr>page := p, jobs := jobs a @ (case fo of None \<Rightarrow> [] | Some f \<Rightarrow> [AnalyzeJob f])\<rparr>, eff))
      else None)"

definition job_done :: "nat \<Rightarrow> fetch_result \<Rightarrow> app \<Rightarrow> (app \<times> effect list) option" where
  "job_done i r a =
     (if i < length (jobs a) then
        (case jobs a ! i of
           ReadJob f \<Rightarrow> None
         | UploadJob f pv \<Rightarrow>
             (case upload_done page_select f pv r (upload a, page a) of
                ((u, p), eff) \<Rightarrow> Some (a\<lparr>page := p, upload := u, jobs := drop_at i (jobs a)\<rparr>, eff))
         | AnalyzeJob f \<Rightarrow>
             (case analyze_done r (page a) of
                (p, eff) \<Rightarrow> Some (a\<lparr>page := p, jobs := drop_at i (jobs a)\<rparr>, eff)))
      else None)"

definition read_done :: "nat \<Rightarrow> app \<Rightarrow> (app \<times> effect list) option" where
  "read_done i a =
     (if i < length (jobs a) then
        (case jobs a ! i of
           ReadJob f \<Rightarrow>
             (case reader_onload f (upload a) of
                (u, eff, pv) \<Rightarrow> Some (a\<lparr>upload := u, jobs := drop_at i (jobs a) @ [UploadJob f pv]\<rparr>, eff))
         | _ \<Rightarrow> None)
      else None)"

fun app_step :: "app \<Rightarrow> event \<Rightarrow> (app \<times> effect list) option" where
  "app_step a DragOver = Some (a\<lparr>upload := handleDragOver (upload a)\<rparr>, [])"
| "app_step a DragLeave = Some (a\<lparr>upload := handleDragLeave (upload a)\<rparr>, [])"
| "app_step a (Drop fs) =
     (case handleDrop fs (upload a) of (u, fo) \<Rightarrow> Some (processFile fo (a\<lparr>upload := u\<rparr>), []))"
| "app_step a (ChooseFiles fs) = Some (processFile (handleFileSelect fs) a, [])"
| "app_step a ClickSelect = Some (a, handleButtonClick)"
| "app_step a ClickAnalyze = click_analyze a"
| "app_step a (ReaderLoaded i) = read_done i a"
| "app_step a (FetchDone i r) = job_done i r a"

fun run :: "app \<Rightarrow> event list \<Rightarrow> (app \<times> effect list) option" where
  "run a [] = Some (a, [])"
| "run a (e # es) =
     (case app_step a e of
        None \<Rightarrow> None
      | Some (a', eff) \<Rightarrow> (case run a' es of None \<Rightarrow> None | Some (a'', effs) \<Rightarrow> Some (a'', eff @ effs)))"

inductive reachable :: "app \<Rightarrow> bool" where
  init: "reachable init_app"
| step: "reachable a \<Longrightarrow> app_step a e = Some (a', eff) \<Longrightarrow> reachable a'"

subsection \<open>The invariant\<close>

fun is_analyze :: "job \<Rightarrow> bool" where
  "is_analyze (AnalyzeJob _) = True"
| "is_analyze _ = False"

fun is_upload :: "job \<Rightarrow> bool" where
  "is_upload (UploadJob _ _) = True"
| "is_upload _ = False"

fun preview_ok :: "job \<Rightarrow> bool" where
  "preview_ok (UploadJob f pv) = (pv = read_as_data_url f)"
| "preview_ok _ = True"

text \<open>
  The page shows the preview of the file it would post; the analyzing flag is set exactly
  when one analysis request is in flight, and then a file is selected and no diagnosis is
  shown; \<open>loading\<close> is set only while an upload is pending; every pending upload carries
  its own file's preview.
\<close>

definition app_inv :: "app \<Rightarrow> bool" where
  "app_inv a \<longleftrightarrow>
     selectedImage (page a) = map_option read_as_data_url (selectedFile (page a)) \<and>
     length (filter is_analyze (jobs a)) = (if isAnalyzing (page a) then 1 else 0) \<and>
     (loading (upload a) \<longrightarrow> 0 < length (filter is_upload (jobs a))) \<and>
     (isAnalyzing (page a) \<longrightarrow> selectedFile (page a) \<noteq> None \<and> diagnosis (page a) = None) \<and>
     list_all preview_ok (jobs a)"


subsection \<open>Preservation\<close>

lemma app_inv_init: "app_inv init_app"
  by (simp add: app_inv_def init_app_def init_page_def init_upload_def)

lemma analyze_enabled_iff:
  "analyze_enabled p \<longleftrightarrow> opt_truthy (selectedImage p) \<and> \<not> opt_truthy (diagnosis p) \<and> \<not> isAnalyzing p"
  by (simp add: analyze_enabled_def render_page_def)

lemma app_inv_processFile:
  "app_inv a \<Longrightarrow> app_inv (processFile fo a)"
  by (cases fo) (auto simp: app_inv_def processFile_def)

lemma app_inv_click:
  assumes "app_inv a" "click_analyze a = Some (a', eff)"
  shows "app_inv a'"
proof -
  have en: "analyze_enabled (page a)" using assms(2) by (simp add: click_analyze_def split: if_splits)
  then obtain f where f: "selectedFile (page a) = Some f"
    using assms(1) by (cases "selectedFile (page a)") (auto simp: analyze_enabled_iff app_inv_def opt_truthy_def)
  have "\<not> isAnalyzing (page a)" using en by (simp add: analyze_enabled_iff)
  with assms f en show ?thesis
    by (auto simp: click_analyze_def handleAnalyze_def app_inv_def)
qed

lemma app_inv_read:
  assumes "app_inv a" "read_done i a = Some (a', eff)"
  shows "app_inv a'"
proof -
  obtain f where i: "i < length (jobs a)" "jobs a ! i = ReadJob f"
    using assms(2) by (auto simp: read_done_def split: if_splits job.splits)
  then show ?thesis
    using assms by (auto simp: read_done_def reader_onload_def app_inv_def filter_drop_at)
qed

lemma app_inv_job_upload:
  assumes "app_inv a" "i < length (jobs a)" "jobs a ! i = UploadJob f pv"
    "job_done i r a = Some (a', eff)"
  shows "app_inv a'"
proof -
  have pv: "pv = read_as_data_url f"
    using assms(1-3) nth_mem [OF assms(2)] by (auto simp: app_inv_def list_all_iff)
  let ?u = "upload_done page_select f pv r (upload a, page a)"
  have a': "a' = a\<lparr>page := snd (fst ?u), upload := fst (fst ?u), jobs := drop_at i (jobs a)\<rparr>"
    using assms(2-4) by (auto simp: job_done_def split: prod.splits)
  have "snd (fst ?u) = page a \<or> snd (fst ?u) = handleImageSelect f pv (page a)"
    using upload_done_parent [of page_select f pv r "(upload a, page a)"] by (auto simp: page_select_def)
  then show ?thesis
    using assms(1-3) pv by (auto simp: a' app_inv_def filter_drop_at handleImageSelect_def)
qed

lemma app_inv_job_analyze:
  assumes "app_inv a" "i < length (jobs a)" "jobs a ! i = AnalyzeJob f"
    "job_done i r a = Some (a', eff)"
  shows "app_inv a'"
proof -
  have "0 < length (filter is_analyze (jobs a))"
    using filter_nth_pos [of i "jobs a" is_analyze] assms(2,3) by simp
  then have c1: "length (filter is_analyze (jobs a)) = 1"
    using assms(1) by (simp add: app_inv_def split: if_splits)
  have an: "length (filter is_analyze (drop_at i (jobs a))) = 0"
    using filter_drop_at [OF assms(2), of is_analyze] c1 assms(3) by simp
  have up: "length (filter is_upload (drop_at i (jobs a))) = length (filter is_upload (jobs a))"
    using filter_drop_at [OF assms(2), of is_upload] assms(3) by simp
  obtain p eff' where ad: "analyze_done r (page a) = (p, eff')" by fastforce
  then have p: "\<not> isAnalyzing p" "selectedImage p = selectedImage (page a)"
    "selectedFile p = selectedFile (page a)"
    by (auto simp: analyze_done_def split: sum.splits)
  have "a' = a\<lparr>page := p, jobs := drop_at i (jobs a)\<rparr>"
    using assms(2-4) ad by (simp add: job_done_def)
  with assms(1) p an up show ?thesis
    by (simp add: app_inv_def del: length_0_conv)
qed

lemma app_inv_job:
  assumes "app_inv a" "job_done i r a = Some (a', eff)"
  shows "app_inv a'"
proof -
  have i: "i < length (jobs a)" using assms(2) by (simp add: job_done_def split: if_splits)
  show ?thesis
  proof (cases "jobs a ! i")
    case (ReadJob f)
    then show ?thesis using assms i by (simp add: job_done_def)
  next
    case (UploadJob f pv)
    then show ?thesis using app_inv_job_upload assms i by blast
  next
    case (AnalyzeJob f)
    then show ?thesis using app_inv_job_analyze assms i by blast
  qed
qed

lemma app_inv_upload_only:
  "app_inv a \<Longrightarrow> loading u = loading (upload a) \<Longrightarrow> app_inv (a\<lparr>upload := u\<rparr>)"
  by (simp add: app_inv_def)

lemma app_inv_step:
  assumes "app_inv a" "app_step a e = Some (a', eff)"
  shows "app_inv a'"
proof (cases e)
  case (Drop fs)
  obtain u fo where h: "handleDrop fs (upload a) = (u, fo)" by fastforce
  then have "loading u = loading (upload a)" by (auto simp: handleDrop_def)
  then have "app_inv (a\<lparr>upload := u\<rparr>)" by (rule app_inv_upload_only [OF assms(1)])
  then show ?thesis using assms(2) Drop h by (auto dest: app_inv_processFile)
qed (use assms in \<open>auto simp: handleDragOver_def handleDragLeave_def
       intro: app_inv_upload_only app_inv_processFile app_inv_click app_inv_read app_inv_job\<close>)

lemma reachable_app_inv: "reachable a \<Longrightarrow> app_inv a"
  by (induction rule: reachable.induct) (auto intro: app_inv_init app_inv_step)


lemma run_reachable:
  "run a es = Some (a', effs) \<Longrightarrow> reachable a \<Longrightarrow> reachable a'"
proof (induction a es arbitrary: effs rule: run.induct)
  case (1 a)
  then show ?case by simp
next
  case (2 a e es)
  then obtain b eff effs' where b: "app_step a e = Some (b, eff)" "run b es = Some (a', effs')"
    by (auto split: option.splits)
  then show ?case using 2 reachable.step [OF "2.prems"(2) b(1)] by blast
qed

subsection \<open>Sample inputs\<close>

definition leaf_jpg :: js_file where
  "leaf_jpg = \<lparr>file_name = ''leaf.jpg'', file_type = ''image/jpeg'', file_bytes = []\<rparr>"

definition rose_png :: js_file where
  "rose_png = \<lparr>file_name = ''rose.png'', file_type = ''image/png'', file_bytes = []\<rparr>"

definition notes_pdf :: js_file where
  "notes_pdf = \<lparr>file_name = ''notes.pdf'', file_type = ''application/pdf'', file_bytes = []\<rparr>"

definition ok_json :: "jsval \<Rightarrow> fetch_result" where
  "ok_json v = Responded \<lparr>status = 200, resp_text = '''', resp_json = BodyJson v\<rparr>"

lemmas app_simps = app_step.simps run.simps processFile_def click_analyze_def read_done_def
  job_done_def analyze_enabled_iff page_select_def init_app_def init_page_def init_upload_def
  handleDrop_def handleFileSelect_def handleButtonClick_def reader_onload_def upload_done_def
  handleImageSelect_def handleAnalyze_def ok_json_def drop_at_def leaf_jpg_def rose_png_def
  notes_pdf_def opt_truthy_def


lemma analyze_done_clears [simp]: "isAnalyzing (fst (analyze_done r s)) = False"
  by (simp add: analyze_done_def split: sum.split)

lemma job_done_analyze:
  assumes "i < length (jobs a)" "jobs a ! i = AnalyzeJob f"
  shows "job_done i r a = Some (a\<lparr>page := fst (analyze_done r (page a)), jobs := drop_at i (jobs a)\<rparr>,
                                 snd (analyze_done r (page a)))"
  using assms by (simp add: job_done_def split: prod.split)

lemma job_done_upload:
  assumes "i < length (jobs a)" "jobs a ! i = UploadJob f pv"
  shows "job_done i r a =
           Some (a\<lparr>page := snd (fst (upload_done page_select f pv r (upload a, page a))),
                   upload := fst (fst (upload_done page_select f pv r (upload a, page a))),
                   jobs := drop_at i (jobs a)\<rparr>,
                 snd (upload_done page_select f pv r (upload a, page a)))"
  using assms by (simp add: job_done_def split: prod.split)

lemma exists_nth_filter:
  assumes "0 < length (filter P xs)"
  obtains i where "i < length xs" "P (xs ! i)"
  using assms by (auto simp: length_filter_conv_card card_gt_0_iff)

lemma confidence_092: "confidence_percent (JNum (Fin (23 / 25))) = ''92.00''"
  by (simp add: confidence_percent_num js_simps split del: if_split)

subsection \<open>Properties of the running application\<close>

text \<open>
  C1. At most one analysis request is in flight in any reachable state, and the page's
  \<open>isAnalyzing\<close> flag is set exactly when one is: the disabled button is what enforces the
  single-submission discipline.
\<close>

theorem reachable_single_analysis:
  assumes "reachable a"
  shows "length (filter is_analyze (jobs a)) \<le> 1 \<and>
         (isAnalyzing (page a) \<longleftrightarrow> 0 < length (filter is_analyze (jobs a)))"
  using reachable_app_inv [OF assms] by (simp add: app_inv_def)

definition click_trace :: "event list" where
  "click_trace = [ChooseFiles [leaf_jpg], ReaderLoaded 0, FetchDone 0 (ok_json (JObj [])), ClickAnalyze]"

lemma run_click_trace:
  "run init_app click_trace =
     Some (\<lparr>page = init_page\<lparr>selectedFile := Some leaf_jpg, selectedImage := Some (read_as_data_url leaf_jpg),
                               isAnalyzing := True\<rparr>,
            upload = init_upload, jobs = [AnalyzeJob leaf_jpg]\<rparr>,
           [PostImage upload_url leaf_jpg, ConsoleLog ''SERVER RESULT:'' (JObj []), PostImage predict_url leaf_jpg])"
  by (simp add: click_trace_def app_simps fetch_outcome_def response_json_def body_json_def)

theorem reachable_single_analysis_witness:
  "\<exists>a effs. run init_app click_trace = Some (a, effs) \<and> isAnalyzing (page a) \<and>
     length (filter is_analyze (jobs a)) \<le> 1 \<and>
     (isAnalyzing (page a) \<longleftrightarrow> 0 < length (filter is_analyze (jobs a)))"
proof -
  let ?a = "\<lparr>page = init_page\<lparr>selectedFile := Some leaf_jpg, selectedImage := Some (read_as_data_url leaf_jpg),
                               isAnalyzing := True\<rparr>,
            upload = init_upload, jobs = [AnalyzeJob leaf_jpg]\<rparr>"
  have r: "reachable ?a" using run_reachable [OF run_click_trace reachable.init] .
  show ?thesis using run_click_trace reachable_single_analysis [OF r] by simp
qed

definition select_trace :: "event list" where
  "select_trace = [ChooseFiles [leaf_jpg], ReaderLoaded 0, FetchDone 0 (ok_json (JObj []))]"

definition selected_app :: app where
  "selected_app = \<lparr>page = init_page\<lparr>selectedFile := Some leaf_jpg,
                      selectedImage := Some (read_as_data_url leaf_jpg)\<rparr>,
                   upload = init_upload, jobs = []\<rparr>"

lemma run_select_trace:
  "run init_app select_trace =
     Some (selected_app, [PostImage upload_url leaf_jpg, ConsoleLog ''SERVER RESULT:'' (JObj [])])"
  by (simp add: select_trace_def selected_app_def app_simps fetch_outcome_def response_json_def body_json_def)

text \<open>
  C2. In every reachable state the image the page shows is the data URL of the file the
  analysis would post, and either both are present or neither is.
\<close>

theorem reachable_preview:
  assumes "reachable a"
  shows "selectedImage (page a) = map_option read_as_data_url (selectedFile (page a))"
  using reachable_app_inv [OF assms] by (simp add: app_inv_def)

theorem reachable_preview_witness:
  "selectedImage (page selected_app) = map_option read_as_data_url (selectedFile (page selected_app))"
  using reachable_preview [OF run_reachable [OF run_select_trace reachable.init]] .

text \<open>
  C4. Whenever the user can click ``Analyze Image'', a file is selected: the click sets
  \<open>isAnalyzing\<close>, posts exactly that file to the predict endpoint and leaves one analysis
  pending; the ``No image selected'' branch is unreachable from the page.
\<close>

theorem click_analyze_posts:
  assumes "reachable a" "app_step a ClickAnalyze = Some (a', eff)"
  shows "\<exists>f. selectedFile (page a) = Some f \<and> eff = [PostImage predict_url f] \<and>
             isAnalyzing (page a') \<and> jobs a' = jobs a @ [AnalyzeJob f]"
proof -
  have en: "analyze_enabled (page a)" using assms(2) by (simp add: click_analyze_def split: if_splits)
  obtain f where f: "selectedFile (page a) = Some f"
    using en reachable_app_inv [OF assms(1)]
    by (cases "selectedFile (page a)") (auto simp: analyze_enabled_iff app_inv_def opt_truthy_def)
  then show ?thesis using assms(2) en by (auto simp: click_analyze_def handleAnalyze_def)
qed

theorem click_analyze_posts_witness:
  "app_step selected_app ClickAnalyze =
     Some (selected_app\<lparr>page := page selected_app\<lparr>isAnalyzing := True\<rparr>, jobs := [AnalyzeJob leaf_jpg]\<rparr>,
           [PostImage predict_url leaf_jpg]) \<and>
   selectedFile (page selected_app) = Some leaf_jpg"
proof -
  have r: "reachable selected_app" using run_reachable [OF run_select_trace reachable.init] .
  have s: "app_step selected_app ClickAnalyze =
     Some (selected_app\<lparr>page := page selected_app\<lparr>isAnalyzing := True\<rparr>, jobs := [AnalyzeJob leaf_jpg]\<rparr>,
           [PostImage predict_url leaf_jpg])"
    by (simp add: selected_app_def app_simps)
  show ?thesis using click_analyze_posts [OF r s] s by (auto simp: selected_app_def)
qed


text \<open>
  C5. An analysis in flight always ends: in every reachable state where the page is
  analyzing there is a pending request whose completion, whatever the server or the network
  answers, clears \<open>isAnalyzing\<close>.
\<close>

theorem analysis_completes:
  assumes "reachable a" "isAnalyzing (page a)"
  shows "\<exists>i < length (jobs a). \<forall>r. \<exists>a' eff. app_step a (FetchDone i r) = Some (a', eff) \<and>
                                             \<not> isAnalyzing (page a')"
proof -
  have "0 < length (filter is_analyze (jobs a))"
    using reachable_app_inv [OF assms(1)] assms(2) by (simp add: app_inv_def)
  then obtain i where i: "i < length (jobs a)" "is_analyze (jobs a ! i)" by (rule exists_nth_filter)
  then obtain f where "jobs a ! i = AnalyzeJob f" by (cases "jobs a ! i") auto
  then show ?thesis using i(1) by (auto simp: job_done_analyze)
qed

theorem analysis_completes_witness:
  "\<forall>r. \<exists>a' eff. app_step (fst (the (run init_app click_trace))) (FetchDone 0 r) = Some (a', eff) \<and>
                 \<not> isAnalyzing (page a')"
proof -
  let ?a = "fst (the (run init_app click_trace))"
  have r: "reachable ?a" using run_reachable [OF _ reachable.init, of click_trace ?a] run_click_trace by simp
  have an: "isAnalyzing (page ?a)" "jobs ?a = [AnalyzeJob leaf_jpg]" using run_click_trace by simp_all
  obtain i where "i < length (jobs ?a)"
      "\<forall>r. \<exists>a' eff. app_step ?a (FetchDone i r) = Some (a', eff) \<and> \<not> isAnalyzing (page a')"
    using analysis_completes [OF r an(1)] by blast
  then show ?thesis using an(2) by simp
qed

text \<open>
  C27. \<open>loading\<close> is set only while an upload is pending: the component never shows
  ``Processing...'' with nothing to wait for.
\<close>

theorem loading_pending:
  assumes "reachable a" "loading (upload a)"
  shows "\<exists>j \<in> set (jobs a). is_upload j"
proof -
  have "0 < length (filter is_upload (jobs a))"
    using reachable_app_inv [OF assms(1)] assms(2) by (simp add: app_inv_def)
  then show ?thesis by (auto simp: length_filter_conv_card card_gt_0_iff)
qed

definition read_trace :: "event list" where
  "read_trace = [ChooseFiles [leaf_jpg], ReaderLoaded 0]"

lemma run_read_trace:
  "run init_app read_trace =
     Some (\<lparr>page = init_page, upload = init_upload\<lparr>loading := True\<rparr>,
            jobs = [UploadJob leaf_jpg (read_as_data_url leaf_jpg)]\<rparr>, [PostImage upload_url leaf_jpg])"
  by (simp add: read_trace_def app_simps)

theorem loading_pending_witness:
  "loading (upload (fst (the (run init_app read_trace)))) \<and>
   (\<exists>j \<in> set (jobs (fst (the (run init_app read_trace)))). is_upload j)"
proof -
  let ?a = "fst (the (run init_app read_trace))"
  have r: "reachable ?a" using run_reachable [OF _ reachable.init, of read_trace ?a] run_read_trace by simp
  have l: "loading (upload ?a)" using run_read_trace by (simp add: init_upload_def)
  show ?thesis using loading_pending [OF r l] l by simp
qed


definition stale_trace :: "event list" where
  "stale_trace = click_trace @ [ChooseFiles [rose_png], ReaderLoaded 1, FetchDone 1 (ok_json (JObj []))]"

definition stale_app :: app where
  "stale_app = \<lparr>page = init_page\<lparr>selectedFile := Some rose_png,
                   selectedImage := Some (read_as_data_url rose_png), isAnalyzing := True\<rparr>,
                upload = init_upload, jobs = [AnalyzeJob leaf_jpg]\<rparr>"

lemma run_stale_trace:
  "map_option fst (run init_app stale_trace) = Some stale_app"
  by (simp add: stale_trace_def stale_app_def click_trace_def app_simps fetch_outcome_def
      response_json_def body_json_def)

text \<open>
  C8. A stale analysis overwrites the report of a newer image: in every reachable state,
  when the pending analysis request (posted for a file \<open>f\<close>) completes with a 2xx answer
  whose \<open>prediction\<close> is \<open>p\<close> and \<open>confidence\<close> is \<open>c\<close>, the page shows the report of
  \<open>p\<close> and \<open>c\<close> beside the preview of the file selected now, \<open>g\<close>, which the user may have
  replaced while the request was in flight: nothing ties the answer to the picture.
\<close>

theorem stale_diagnosis_race:
  assumes "reachable a" "i < length (jobs a)" "jobs a ! i = AnalyzeJob f"
    "selectedFile (page a) = Some g"
    "response_ok resp" "resp_json resp = BodyJson data"
    "get_prop data ''prediction'' = Inr p" "get_prop data ''confidence'' = Inr c"
    "app_step a (FetchDone i (Responded resp)) = Some (a', eff)"
  shows "report (render_page (page a')) = Some (report_template p c, read_as_data_url g)"
proof -
  have img: "selectedImage (page a) = Some (read_as_data_url g)"
    using reachable_app_inv [OF assms(1)] assms(4) by (simp add: app_inv_def)
  have "page a' = (page a)\<lparr>diagnosis := Some (report_template p c), isAnalyzing := False\<rparr>"
    using assms(9) job_done_analyze [OF assms(2,3), of "Responded resp"] analysis_outcome_ok [OF assms(5-8)]
    by (auto simp: analyze_done_def)
  then show ?thesis using img by (simp add: render_page_def report_template_eq read_as_data_url_def)
qed

theorem stale_diagnosis_race_witness:
  "\<exists>a' eff. app_step stale_app (FetchDone 0 (ok_json leaf_blight)) = Some (a', eff) \<and>
     jobs stale_app ! 0 = AnalyzeJob leaf_jpg \<and>
     report (render_page (page a')) =
       Some (''Disease: Leaf Blight'' @ [CHR 0x0A] @ ''Confidence: 92.00%'', read_as_data_url rose_png)"
proof -
  have r: "reachable stale_app"
    using run_reachable [OF _ reachable.init, of stale_trace stale_app] run_stale_trace by auto
  obtain a' eff where s: "app_step stale_app (FetchDone 0 (ok_json leaf_blight)) = Some (a', eff)"
    using job_done_analyze [of 0 stale_app leaf_jpg] by (simp add: stale_app_def)
  have "report (render_page (page a')) =
          Some (report_template (JStr ''Leaf Blight'') (JNum (Fin 0.92)), read_as_data_url rose_png)"
    by (rule stale_diagnosis_race [where data = leaf_blight, OF r _ _ _ _ _ _ _ s [unfolded ok_json_def], of leaf_jpg])
       (simp_all add: stale_app_def ok_json_def response_ok_def leaf_blight_def js_simps)
  then show ?thesis using s by (simp add: report_template_eq confidence_092 stale_app_def)
qed

text \<open>
  C12. An upload that fails, because \<open>fetch\<close> rejects or because the server answers with a
  body that is not JSON (an HTML error page, say), selects nothing: the page is unchanged,
  \<open>loading\<close> is cleared, the error is logged and the alert says the backend could not be
  reached, also when it did answer.
\<close>

theorem upload_failure_alert:
  assumes "i < length (jobs a)" "jobs a ! i = UploadJob f pv"
    "r = NetworkError m \<or> (\<exists>resp. r = Responded resp \<and> resp_json resp = BodyMalformed m)"
    "app_step a (FetchDone i r) = Some (a', eff)"
  shows "page a' = page a \<and> \<not> loading (upload a') \<and> jobs a' = drop_at i (jobs a) \<and>
         eff = [ConsoleError ''UPLOAD ERROR:''
                  (JsError (case r of NetworkError _ \<Rightarrow> TypeError | Responded _ \<Rightarrow> SyntaxError) m),
                Alert backend_alert]"
  using assms(3)
proof
  assume "r = NetworkError m"
  then show ?thesis using assms(1,2,4) by (auto simp: job_done_def upload_done_network_error)
next
  assume "\<exists>resp. r = Responded resp \<and> resp_json resp = BodyMalformed m"
  then show ?thesis using assms(1,2,4)
    by (auto simp: job_done_def upload_done_def fetch_outcome_def response_json_def body_json_def)
qed

theorem upload_failure_alert_witness:
  "\<exists>a' eff. app_step (fst (the (run init_app read_trace)))
       (FetchDone 0 (Responded \<lparr>status = 500, resp_text = ''<html>'', resp_json = BodyMalformed ''Unexpected token <''\<rparr>)) =
       Some (a', eff) \<and> page a' = init_page \<and>
     eff = [ConsoleError ''UPLOAD ERROR:'' (JsError SyntaxError ''Unexpected token <''), Alert backend_alert]"
proof -
  let ?a = "fst (the (run init_app read_trace))"
  let ?r = "Responded \<lparr>status = 500, resp_text = ''<html>'', resp_json = BodyMalformed ''Unexpected token <''\<rparr>"
  have j: "jobs ?a = [UploadJob leaf_jpg (read_as_data_url leaf_jpg)]" "page ?a = init_page"
    using run_read_trace by simp_all
  obtain a' eff where s: "app_step ?a (FetchDone 0 ?r) = Some (a', eff)"
    using job_done_upload [of 0 ?a leaf_jpg] j by simp
  have "page a' = page ?a \<and> \<not> loading (upload a') \<and> jobs a' = drop_at 0 (jobs ?a) \<and>
        eff = [ConsoleError ''UPLOAD ERROR:'' (JsError (case ?r of NetworkError _ \<Rightarrow> TypeError
                 | Responded _ \<Rightarrow> SyntaxError) ''Unexpected token <''), Alert backend_alert]"
    by (rule upload_failure_alert [OF _ _ _ s]) (simp_all add: j)
  then show ?thesis using s j by simp
qed

text \<open>
  C25. The file chooser does not check the type while the drop zone does: for a file whose
  type does not start with \<open>image/\<close>, dropping it only ends the drag highlight, with no
  effect and no work left pending, while choosing it through the input starts reading it,
  as for an image.
\<close>

theorem non_image_selection:
  assumes "\<not> starts_with (file_type f) ''image/''"
  shows "app_step a (Drop (f # fs)) = Some (a\<lparr>upload := (upload a)\<lparr>isDragging := False\<rparr>\<rparr>, []) \<and>
         app_step a (ChooseFiles (f # fs)) = Some (a\<lparr>jobs := jobs a @ [ReadJob f]\<rparr>, [])"
  using assms by (simp add: handleDrop_def handleFileSelect_def processFile_def)

theorem non_image_selection_witness:
  "app_step init_app (Drop [notes_pdf]) = Some (init_app, []) \<and>
   app_step init_app (ChooseFiles [notes_pdf]) = Some (init_app\<lparr>jobs := [ReadJob notes_pdf]\<rparr>, [])"
  using non_image_selection [of notes_pdf init_app "[]"]
  by (simp add: notes_pdf_def starts_with_def init_app_def init_upload_def)

text \<open>
  C28. Uploads in flight share one \<open>loading\<close> flag: when one of two pending uploads
  completes, whatever its answer, the flag is cleared and the ``Processing...'' overlay
  removed although the other upload is still pending.
\<close>

theorem loading_race:
  assumes "i < length (jobs a)" "j < length (jobs a)" "i \<noteq> j"
    "jobs a ! i = UploadJob f pv" "is_upload (jobs a ! j)"
    "app_step a (FetchDone i r) = Some (a', eff)"
  shows "\<not> loading (upload a') \<and>
         \<not> processing_overlay (render_upload (selectedImage (page a')) (upload a')) \<and>
         0 < length (filter is_upload (jobs a'))"
proof -
  obtain u p eff' where ud: "upload_done page_select f pv r (upload a, page a) = ((u, p), eff')"
    by (metis prod.exhaust)
  then have a': "a' = a\<lparr>page := p, upload := u, jobs := drop_at i (jobs a)\<rparr>"
    using assms(1,4,6) by (simp add: job_done_def)
  have l: "\<not> loading u" using upload_done_loading [of page_select f pv r "(upload a, page a)"] ud by simp
  have "1 < length (filter is_upload (jobs a))"
    using filter_nth_two [OF assms(1-3)] assms(4,5) by simp
  then have "0 < length (filter is_upload (drop_at i (jobs a)))"
    using filter_drop_at [OF assms(1), of is_upload] assms(4) by simp
  then show ?thesis using a' l by (simp add: render_upload_def split: option.split)
qed

definition two_uploads :: "event list" where
  "two_uploads = [ChooseFiles [leaf_jpg], ChooseFiles [rose_png], ReaderLoaded 0, ReaderLoaded 0]"

theorem loading_race_witness:
  "\<exists>a' eff. app_step (fst (the (run init_app two_uploads))) (FetchDone 0 (ok_json (JObj []))) = Some (a', eff) \<and>
     loading (upload (fst (the (run init_app two_uploads)))) \<and>
     \<not> loading (upload a') \<and> 0 < length (filter is_upload (jobs a'))"
proof -
  let ?a = "fst (the (run init_app two_uploads))"
  have j: "jobs ?a = [UploadJob leaf_jpg (read_as_data_url leaf_jpg), UploadJob rose_png (read_as_data_url rose_png)]"
    "loading (upload ?a)"
    by (simp_all add: two_uploads_def app_simps)
  obtain a' eff where s: "app_step ?a (FetchDone 0 (ok_json (JObj []))) = Some (a', eff)"
    using job_done_upload [of 0 ?a leaf_jpg] j by simp
  have "\<not> loading (upload a') \<and> \<not> processing_overlay (render_upload (selectedImage (page a')) (upload a')) \<and>
        0 < length (filter is_upload (jobs a'))"
    by (rule loading_race [OF _ _ _ _ _ s, of 1]) (simp_all add: j)
  then show ?thesis using s j by simp
qed

text \<open>
  C26. The upload's answer is discarded: completing a pending upload with any two JSON
  bodies yields the same application state, so the server's first prediction is never used
  and the page posts the file a second time to analyze it.
\<close>

theorem upload_result_ignored:
  assumes "i < length (jobs a)" "jobs a ! i = UploadJob f pv"
    "resp_json r1 = BodyJson v1" "resp_json r2 = BodyJson v2"
  shows "map_option fst (app_step a (FetchDone i (Responded r1))) =
         map_option fst (app_step a (FetchDone i (Responded r2)))"
  using assms by (simp add: job_done_def upload_done_def page_select_def fetch_outcome_def
                            response_json_def body_json_def)

theorem upload_result_ignored_witness:
  "map_option fst (app_step (fst (the (run init_app read_trace))) (FetchDone 0 (ok_json leaf_blight))) =
   map_option fst (app_step (fst (the (run init_app read_trace))) (FetchDone 0 (ok_json (JObj []))))"
  using upload_result_ignored [of 0 "fst (the (run init_app read_trace))" leaf_jpg "read_as_data_url leaf_jpg"
      "\<lparr>status = 200, resp_text = '''', resp_json = BodyJson leaf_blight\<rparr>" leaf_blight
      "\<lparr>status = 200, resp_text = '''', resp_json = BodyJson (JObj [])\<rparr>" "JObj []"]
  by (simp add: run_read_trace ok_json_def)


text \<open>
  C11. A failed analysis can be retried: when the pending analysis request of a reachable
  state fails to reach the server, the page shows the browser's message in the failure toast,
  changes nothing but the analyzing flag, and the analyze button is enabled again.
\<close>

theorem analysis_network_retry:
  assumes "reachable a" "i < length (jobs a)" "jobs a ! i = AnalyzeJob f"
    "app_step a (FetchDone i (NetworkError m)) = Some (a', eff)"
  shows "eff = [ShowToast (failed_toast m)] \<and> page a' = (page a)\<lparr>isAnalyzing := False\<rparr> \<and>
         analyze_enabled (page a')"
proof -
  have inv: "app_inv a" by (rule reachable_app_inv [OF assms(1)])
  have "0 < length (filter is_analyze (jobs a))"
    using filter_nth_pos [of i "jobs a" is_analyze] assms(2,3) by simp
  then have an: "isAnalyzing (page a)" using inv by (simp add: app_inv_def split: if_splits)
  then obtain g where g: "selectedFile (page a) = Some g" "diagnosis (page a) = None"
    using inv by (auto simp: app_inv_def)
  have img: "selectedImage (page a) = Some (read_as_data_url g)" using inv g by (simp add: app_inv_def)
  have "a' = a\<lparr>page := (page a)\<lparr>isAnalyzing := False\<rparr>, jobs := drop_at i (jobs a)\<rparr>"
    "eff = [ShowToast (failed_toast m)]"
    using assms(4) job_done_analyze [OF assms(2,3), of "NetworkError m"]
    by (simp_all add: analyze_done_network_error)
  then show ?thesis using g img by (simp add: analyze_enabled_iff opt_truthy_def)
qed

theorem analysis_network_retry_witness:
  "\<exists>a' eff. app_step (fst (the (run init_app click_trace))) (FetchDone 0 (NetworkError ''Failed to fetch'')) =
       Some (a', eff) \<and> eff = [ShowToast (failed_toast ''Failed to fetch'')] \<and> analyze_enabled (page a')"
proof -
  let ?a = "fst (the (run init_app click_trace))"
  have r: "reachable ?a" using run_reachable [OF _ reachable.init, of click_trace ?a] run_click_trace by simp
  have j: "jobs ?a = [AnalyzeJob leaf_jpg]" using run_click_trace by simp
  obtain a' eff where s: "app_step ?a (FetchDone 0 (NetworkError ''Failed to fetch'')) = Some (a', eff)"
    using job_done_analyze [of 0 ?a leaf_jpg] j by simp
  have "eff = [ShowToast (failed_toast ''Failed to fetch'')] \<and> page a' = (page ?a)\<lparr>isAnalyzing := False\<rparr> \<and>
        analyze_enabled (page a')"
    by (rule analysis_network_retry [OF r _ _ s]) (simp_all add: j)
  then show ?thesis using s by blast
qed

text \<open>
  C13. Dropping an image file and choosing it through the file input are the same action: for
  a file whose type starts with \<open>image/\<close>, the drop ends the drag highlight and then does
  exactly what the input's change handler does.
\<close>

theorem drop_choose_equiv:
  assumes "starts_with (file_type f) ''image/''"
  shows "app_step a (Drop (f # fs)) =
         app_step (a\<lparr>upload := (upload a)\<lparr>isDragging := False\<rparr>\<rparr>) (ChooseFiles (f # fs))"
  using assms by (simp add: handleDrop_def handleFileSelect_def)

theorem drop_choose_equiv_witness:
  "app_step init_app (Drop [leaf_jpg]) =
   app_step (init_app\<lparr>upload := (upload init_app)\<lparr>isDragging := False\<rparr>\<rparr>) (ChooseFiles [leaf_jpg])"
  using drop_choose_equiv [of leaf_jpg init_app "[]"] by (simp add: leaf_jpg_def starts_with_def)


subsection \<open>Termination of the pending work\<close>

fun job_weight :: "job \<Rightarrow> nat" where
  "job_weight (ReadJob _) = 2"
| "job_weight _ = 1"

lemma run_Cons_Some:
  "app_step a e = Some (b, eff) \<Longrightarrow> run b es = Some (c, effs) \<Longrightarrow> run a (e # es) = Some (c, eff @ effs)"
  by simp

lemma complete_first_job:
  assumes "jobs a = j # js"
  obtains e b eff where "e \<in> {ReaderLoaded 0, FetchDone 0 r}" "app_step a e = Some (b, eff)"
    "sum_list (map job_weight (jobs b)) < sum_list (map job_weight (jobs a))"
proof (cases j)
  case (ReadJob f)
  then show ?thesis
    using assms that [of "ReaderLoaded 0"]
    by (auto simp: read_done_def reader_onload_def drop_at_def)
next
  case (UploadJob f pv)
  obtain u p eff where u: "upload_done page_select f pv r (upload a, page a) = ((u, p), eff)"
    by (metis prod.exhaust)
  then show ?thesis
    using assms UploadJob that [of "FetchDone 0 r" "a\<lparr>page := p, upload := u, jobs := js\<rparr>" eff]
    by (simp add: job_done_def drop_at_def)
next
  case (AnalyzeJob f)
  then show ?thesis
    using assms job_done_analyze [of 0 a f r]
      that [of "FetchDone 0 r" "a\<lparr>page := fst (analyze_done r (page a)), jobs := js\<rparr>"]
    by (simp add: drop_at_def)
qed

lemma drain_jobs:
  "reachable a \<Longrightarrow> \<exists>es a' effs. length es \<le> sum_list (map job_weight (jobs a)) \<and>
     set es \<subseteq> {ReaderLoaded 0, FetchDone 0 r} \<and> run a es = Some (a', effs) \<and> reachable a' \<and> jobs a' = []"
proof (induction "sum_list (map job_weight (jobs a))" arbitrary: a rule: less_induct)
  case less
  show ?case
  proof (cases "jobs a")
    case Nil
    then show ?thesis using less.prems by (intro exI [of _ "[]"]) auto
  next
    case (Cons j js)
    then obtain e b eff where e: "e \<in> {ReaderLoaded 0, FetchDone 0 r}" "app_step a e = Some (b, eff)"
        "sum_list (map job_weight (jobs b)) < sum_list (map job_weight (jobs a))"
      by (rule complete_first_job)
    have rb: "reachable b" using reachable.step [OF less.prems e(2)] .
    obtain es a' effs where es: "length es \<le> sum_list (map job_weight (jobs b))"
        "set es \<subseteq> {ReaderLoaded 0, FetchDone 0 r}" "run b es = Some (a', effs)" "reachable a'" "jobs a' = []"
      using less.hyps [OF e(3) rb] by blast
    show ?thesis
      using es e run_Cons_Some [OF e(2) es(3)]
      by (intro exI [of _ "e # es"] exI [of _ a'] exI [of _ "eff @ effs"]) auto
  qed
qed

text \<open>
  C6. All pending work terminates: from every reachable state, completing the first pending
  job again and again, with any one answer, empties the queue within as many steps as the
  queue's weight (two for a pending read, one for a pending request), and the application
  is then quiescent: not analyzing and not loading.
\<close>

theorem pending_work_drains:
  assumes "reachable a"
  shows "\<exists>es a' effs. length es \<le> sum_list (map job_weight (jobs a)) \<and>
           set es \<subseteq> {ReaderLoaded 0, FetchDone 0 r} \<and> run a es = Some (a', effs) \<and>
           jobs a' = [] \<and> \<not> isAnalyzing (page a') \<and> \<not> loading (upload a')"
proof -
  obtain es a' effs where d: "length es \<le> sum_list (map job_weight (jobs a))"
      "set es \<subseteq> {ReaderLoaded 0, FetchDone 0 r}" "run a es = Some (a', effs)" "reachable a'" "jobs a' = []"
    using drain_jobs [OF assms] by blast
  have "app_inv a'" by (rule reachable_app_inv [OF d(4)])
  then have "\<not> isAnalyzing (page a')" "\<not> loading (upload a')" using d(5) by (auto simp: app_inv_def)
  then show ?thesis using d by blast
qed

theorem pending_work_drains_witness:
  "\<exists>es a' effs. length es \<le> sum_list (map job_weight (jobs (fst (the (run init_app read_trace))))) \<and>
     set es \<subseteq> {ReaderLoaded 0, FetchDone 0 (ok_json (JObj []))} \<and>
     run (fst (the (run init_app read_trace))) es = Some (a', effs) \<and>
     jobs a' = [] \<and> \<not> isAnalyzing (page a') \<and> \<not> loading (upload a')"
proof -
  have r: "reachable (fst (the (run init_app read_trace)))"
    using run_reachable [OF _ reachable.init, of read_trace] run_read_trace by simp
  show ?thesis by (rule pending_work_drains [OF r])
qed

end
