(* ===== verification/Refinement.thy ===== *)
theory Refinement
  imports App
begin

text \<open>
  The abstract pipeline of the specification (section 4.3): a UI is \<open>Idle\<close> (no image),
  \<open>ImageSelected\<close>, \<open>Analyzing\<close> (a request in flight) or \<open>Complete\<close> (a result shown). Selecting
  a file leads to \<open>ImageSelected\<close> from any phase but \<open>Analyzing\<close>; submitting leads from
  \<open>ImageSelected\<close> to \<open>Analyzing\<close>; an answer leads to \<open>Complete\<close> on success and back to
  \<open>ImageSelected\<close> on failure. \<open>phase_of\<close> reads the phase off the page's state, and the
  theorems show that every step of the running application is a step of this machine or
  leaves the phase unchanged.
\<close>

datatype phase = Idle | ImageSelected | Analyzing | Complete

inductive spec_step :: "phase \<Rightarrow> phase \<Rightarrow> bool" where
  select: "p \<noteq> Analyzing \<Longrightarrow> spec_step p ImageSelected"
| submit: "spec_step ImageSelected Analyzing"
| succeed: "spec_step Analyzing Complete"
| fail: "spec_step Analyzing ImageSelected"

code_pred spec_step .

inductive_simps spec_step_simps: "spec_step p q"

text \<open>
  The phase is read as the page renders it (\<open>Index.tsx\<close> lines 109 and 132): an image and
  a diagnosis count when they are present and non-empty.
\<close>

definition phase_of :: "page_state \<Rightarrow> phase" where
  "phase_of p =
     (if isAnalyzing p then Analyzing
      else if \<not> opt_truthy (selectedImage p) then Idle
      else if \<not> opt_truthy (diagnosis p) then ImageSelected
      else Complete)"

definition spec_step_or_stay :: "phase \<Rightarrow> phase \<Rightarrow> bool" where
  "spec_step_or_stay p q \<longleftrightarrow> p = q \<or> spec_step p q"


subsection \<open>Simulation\<close>

lemma analyze_done_page:
  "fst (analyze_done r p) = p\<lparr>isAnalyzing := False\<rparr> \<or>
   (\<exists>txt. fst (analyze_done r p) = p\<lparr>diagnosis := Some txt, isAnalyzing := False\<rparr>)"
  by (auto simp: analyze_done_def split: sum.split)

lemma phase_analysis_done:
  assumes "isAnalyzing p" "opt_truthy (selectedImage p)"
  shows "spec_step (phase_of p) (phase_of (fst (analyze_done r p)))"
proof -
  have "phase_of p = Analyzing" using assms(1) by (simp add: phase_of_def)
  moreover have "phase_of (fst (analyze_done r p)) \<in> {ImageSelected, Complete}"
    using analyze_done_page [of r p] assms(2) by (auto simp: phase_of_def)
  ultimately show ?thesis by (auto intro: spec_step.intros)
qed

lemma phase_image_select:
  assumes "\<not> isAnalyzing p" "pv \<noteq> []"
  shows "spec_step (phase_of p) (phase_of (handleImageSelect f pv p))"
proof -
  have "phase_of (handleImageSelect f pv p) = ImageSelected"
    using assms by (simp add: phase_of_def handleImageSelect_def opt_truthy_def)
  moreover have "phase_of p \<noteq> Analyzing" using assms(1) by (simp add: phase_of_def)
  ultimately show ?thesis by (simp add: spec_step.select)
qed

lemma phase_click:
  assumes "click_analyze a = Some (a', eff)"
  shows "spec_step (phase_of (page a)) (phase_of (page a'))"
proof -
  have en: "analyze_enabled (page a)" using assms by (simp add: click_analyze_def split: if_splits)
  then have "phase_of (page a) = ImageSelected" by (simp add: analyze_enabled_iff phase_of_def)
  moreover have "isAnalyzing (page a') \<or> page a' = page a"
    using assms en by (auto simp: click_analyze_def handleAnalyze_def split: option.splits)
  moreover have "\<not> isAnalyzing (page a)" using en by (simp add: analyze_enabled_iff)
  ultimately show ?thesis
    using assms en by (auto simp: click_analyze_def handleAnalyze_def phase_of_def intro: spec_step.intros
                            split: option.splits)
qed

lemma phase_job_done:
  assumes "app_inv a" "job_done i r a = Some (a', eff)"
  shows "spec_step_or_stay (phase_of (page a)) (phase_of (page a'))"
proof -
  have i: "i < length (jobs a)" using assms(2) by (simp add: job_done_def split: if_splits)
  show ?thesis
  proof (cases "jobs a ! i")
    case (ReadJob f)
    then show ?thesis using assms(2) i by (simp add: job_done_def)
  next
    case (UploadJob f pv)
    have pv: "pv = read_as_data_url f"
      using assms(1) UploadJob nth_mem [OF i] by (auto simp: app_inv_def list_all_iff)
    have "page a' = snd (fst (upload_done page_select f pv r (upload a, page a)))"
      using assms(2) i UploadJob by (auto simp: job_done_def split: prod.splits)
    then have "page a' = page a \<or> page a' = handleImageSelect f pv (page a)"
      using upload_done_parent [of page_select f pv r "(upload a, page a)"] by (auto simp: page_select_def)
    moreover have "spec_step_or_stay (phase_of (page a)) (phase_of (handleImageSelect f pv (page a)))"
    proof (cases "isAnalyzing (page a)")
      case True
      then show ?thesis by (simp add: phase_of_def handleImageSelect_def spec_step_or_stay_def)
    next
      case False
      then show ?thesis using phase_image_select [OF False, of pv f] pv by (simp add: spec_step_or_stay_def)
    qed
    ultimately show ?thesis by (auto simp: spec_step_or_stay_def)
  next
    case (AnalyzeJob f)
    have "0 < length (filter is_analyze (jobs a))"
      using filter_nth_pos [of i "jobs a" is_analyze] i AnalyzeJob by simp
    then have an: "isAnalyzing (page a)" using assms(1) by (simp add: app_inv_def split: if_splits)
    then have "opt_truthy (selectedImage (page a))"
      using assms(1) by (auto simp: app_inv_def opt_truthy_def)
    moreover have "page a' = fst (analyze_done r (page a))"
      using assms(2) job_done_analyze [OF i AnalyzeJob, of r] by auto
    ultimately show ?thesis
      using phase_analysis_done [OF an] by (simp add: spec_step_or_stay_def)
  qed
qed

subsection \<open>Refinement\<close>

text \<open>
  C3. Every step of the running application from a reachable state is a step of the
  specification's pipeline or leaves the rendered phase unchanged: an analysis starts only
  from a selected image (never from \<open>Idle\<close> or from a shown result), ends only in a result
  or back at the selected image, no new image is taken while an analysis is in flight, and
  no step returns to \<open>Idle\<close>.
\<close>

theorem step_refines_spec:
  assumes "reachable a" "app_step a e = Some (a', eff)"
  shows "spec_step_or_stay (phase_of (page a)) (phase_of (page a'))"
proof (cases e)
  case ClickAnalyze
  then show ?thesis using assms(2) phase_click by (simp add: spec_step_or_stay_def)
next
  case (FetchDone i r)
  then show ?thesis using reachable_app_inv [OF assms(1)] assms(2) phase_job_done by simp
next
  case (ReaderLoaded i)
  then have "page a' = page a"
    using assms(2) by (auto simp: read_done_def split: if_splits job.splits prod.splits)
  then show ?thesis by (simp add: spec_step_or_stay_def)
next
  case (Drop fs)
  then have "page a' = page a"
    using assms(2) by (auto simp: processFile_def split: prod.splits option.splits)
  then show ?thesis by (simp add: spec_step_or_stay_def)
qed (use assms(2) in \<open>auto simp: spec_step_or_stay_def processFile_def split: option.splits\<close>)

theorem step_refines_spec_witness:
  "app_step selected_app ClickAnalyze =
     Some (selected_app\<lparr>page := page selected_app\<lparr>isAnalyzing := True\<rparr>, jobs := [AnalyzeJob leaf_jpg]\<rparr>,
           [PostImage predict_url leaf_jpg]) \<and>
   phase_of (page selected_app) = ImageSelected \<and>
   spec_step_or_stay ImageSelected
     (phase_of (page (selected_app\<lparr>page := page selected_app\<lparr>isAnalyzing := True\<rparr>,
                                   jobs := [AnalyzeJob leaf_jpg]\<rparr>)))"
proof -
  have r: "reachable selected_app" using run_reachable [OF run_select_trace reachable.init] .
  have s: "app_step selected_app ClickAnalyze =
     Some (selected_app\<lparr>page := page selected_app\<lparr>isAnalyzing := True\<rparr>, jobs := [AnalyzeJob leaf_jpg]\<rparr>,
           [PostImage predict_url leaf_jpg])"
    by (simp add: selected_app_def app_simps)
  have p: "phase_of (page selected_app) = ImageSelected"
    by (simp add: selected_app_def phase_of_def init_page_def opt_truthy_def read_as_data_url_def)
  show ?thesis using step_refines_spec [OF r s] s p by simp
qed

end
