(* ===== verification/Features.thy ===== *)
theory Features
  imports Prelude
begin

text \<open>
  The static section \<open>src/components/FeaturesSection.tsx\<close>: the constant array
  \<open>features\<close> and its rendering, a heading, a paragraph and one card per feature keyed by its
  index. It takes no props and holds no state.
\<close>

datatype icon = Microscope | Zap | Shield | Globe

record feature =
  feature_icon :: icon
  feature_title :: string
  feature_description :: string

definition features :: "feature list" where
  "features =
     [\<lparr>feature_icon = Microscope, feature_title = ''AI-Powered Analysis'',
       feature_description = ''Advanced computer vision technology analyzes your plant images with expert-level accuracy''\<rparr>,
      \<lparr>feature_icon = Zap, feature_title = ''Instant Results'',
       feature_description = ''Get comprehensive disease diagnosis reports in seconds, not days''\<rparr>,
      \<lparr>feature_icon = Shield, feature_title = ''Expert Guidance'',
       feature_description = ''Receive detailed treatment recommendations and prevention tips from our AI expert''\<rparr>,
      \<lparr>feature_icon = Globe, feature_title = ''Accessible Anywhere'',
       feature_description = ''No login required. Upload and analyze plant health from any device, anywhere''\<rparr>]"

record card =
  card_key :: nat
  card_icon :: icon
  card_heading :: string
  card_text :: string

record features_view =
  section_heading :: string
  section_intro :: string
  cards :: "card list"

text \<open>\<open>features.map((feature, index) => ...)\<close>: one card per feature, keyed by its index.\<close>

definition render_cards :: "feature list \<Rightarrow> card list" where
  "render_cards fs =
     map (\<lambda>(i, f). \<lparr>card_key = i, card_icon = feature_icon f, card_heading = feature_title f,
                     card_text = feature_description f\<rparr>) (zip [0..<length fs] fs)"

definition FeaturesSection :: features_view where
  "FeaturesSection =
     \<lparr>section_heading = ''Why Choose Our Platform?'',
      section_intro = ''Professional-grade plant disease detection powered by cutting-edge AI technology, '' @
                      ''making expert diagnostics accessible to everyone.'',
      cards = render_cards features\<rparr>"

lemma FeaturesSection_cards:
  "map card_key (cards FeaturesSection) = [0, 1, 2, 3] \<and>
   map card_heading (cards FeaturesSection) =
     [''AI-Powered Analysis'', ''Instant Results'', ''Expert Guidance'', ''Accessible Anywhere'']"
  by (simp add: FeaturesSection_def render_cards_def features_def upt_rec)

end
