(* ===== verification/Spec2Isabelle.thy ===== *)
theory Spec2Isabelle
  imports AnalyzePlant Refinement Features
begin

text \<open>
  \<^bold>\<open>A verification development of plant-doctor-ai.\<close>

  \<^bold>\<open>The program.\<close> A browser page (\<open>Frontend/src/pages/Index.tsx\<close>) renders the
  \<open>ImageUpload\<close> card (\<open>src/components/ImageUpload.tsx\<close>). A file dropped on the card or
  chosen through its hidden input is read by a \<open>FileReader\<close>; when the read completes the
  card posts the file to a local Flask endpoint and, if the answer is JSON, hands file,
  preview and answer to the page's \<open>handleImageSelect\<close>, which selects the image. The
  page's ``Analyze Image'' button posts the selected file again, and the answer becomes the
  two-line report \<open>Disease: ...\<close> and \<open>Confidence: ...%\<close> or a failure toast. A separately
  deployed Deno edge function (\<open>supabase/functions/analyze-plant/index.ts\<close>) forwards a
  base64 image with a fixed diagnostic prompt to an AI gateway and relays the answer or a
  classified error.

  \<^bold>\<open>Library layout.\<close>
  \<^item> \<open>Prelude\<close>: the exception-passing bind \<open>sbind\<close> (JavaScript's \<open>throw\<close> as \<open>Inl\<close>),
    removal of the \<open>i\<close>-th pending job (\<open>drop_at\<close>) with its counting lemmas, evaluation
    lemmas for rounding on literals.
  \<^item> \<open>JsString\<close>, \<open>JsNumber\<close>, \<open>JsValue\<close>, \<open>WebApi\<close>: the environment the handlers run in,
    modelled from ECMA-262 and the Web platform specifications, not from the repository:
    \<open>trim\<close>, \<open>startsWith\<close>; numbers as exact rationals with \<open>*\<close>, \<open>Number::toString\<close>,
    \<open>toFixed\<close> and \<open>StringToNumber\<close>, with the lemmas that, on exact rationals, \<open>toFixed\<close> reads back as the value
    rounded half away from zero, within half a unit of the last digit; JSON values with
    property access that throws V8's \<open>TypeError\<close>s, truthiness, \<open>ToString\<close>, \<open>ToNumber\<close>;
    files, \<open>readAsDataURL\<close> (Base64 over \<open>8 word\<close>, with its length lemma), \<open>fetch\<close>
    outcomes, \<open>Response.json()\<close>, and the effects a handler has (alerts, toasts, requests,
    console output).
  \<^item> \<open>Json\<close>: \<open>JSON.stringify\<close> (QuoteJSONString, SerializeJSONProperty) and a
    recursive-descent \<open>JSON.parse\<close> with fuel; the fuel is the length of the text, which the
    lemma \<open>jcalls_le_length\<close> shows enough. \<open>json_parse_stringify\<close>: the text of every value
    without numbers and without \<open>undefined\<close> reads back as that value. \<open>JSON.stringify\<close>
    is what turns an \<open>undefined\<close> diagnosis into the text \<open>{}\<close> (C22).
  \<^item> \<open>AnalyzePlant\<close>: the edge function. \<open>serve_analyze key gw req\<close> is the handler given to
    \<open>serve\<close>, with \<open>key\<close> the value of \<open>Deno.env.get('LOVABLE_API_KEY')\<close> and \<open>gw\<close> the
    gateway's answer to the single \<open>fetch\<close>; \<open>analyze_try\<close> is its \<open>try\<close> block,
    \<open>gateway_reply\<close> lines 67 to 96, \<open>extract_content\<close> the path
    \<open>choices[0].message.content\<close>. Theorems C14 to C24: every response carries the CORS
    headers (C14); a diagnosis answer comes from exactly one gateway request built from the
    key and the body's \<open>imageBase64\<close>, and is that request's answered content (C15); at most
    one gateway call (C16); the preflight (C17); the missing key (C18); the relayed 429 and
    402 (C19); the generic 500 with the gateway's status logged (C20); the verbatim
    pass-through (C21); a message without content sent as the text \<open>{}\<close> (C22); body
    parsing before the key check (C23); and every request sent carries the key as bearer
    token and the body's \<open>imageBase64\<close> as the image URL (C24).
  \<^item> \<open>IndexPage\<close>: the page's state record \<open>page_state\<close> (its four \<open>useState\<close> hooks),
    \<open>handleImageSelect\<close>, and \<open>handleAnalyze\<close> split at its \<open>await\<close> into the click
    (\<open>handleAnalyze\<close>) and the completion (\<open>analyze_done\<close>, with \<open>analysis_outcome\<close> its
    \<open>try\<close> block and \<open>report_template\<close> the template literal with \<open>confidence_percent\<close>);
    \<open>render_page\<close> gives the analyze button and the report. Theorems C7, C9, C10 and C29:
    the success report (with the spec's Leaf Blight scenario as witness), the server error,
    the status-blind error handling, and the \<open>{diagnosis}\<close> body rendered as
    \<open>undefined\<close>/\<open>NaN\<close>.
  \<^item> \<open>ImageUpload\<close>: the card's state \<open>upload_state\<close>, its handlers
    (\<open>handleDragOver\<close>, \<open>handleDragLeave\<close>, \<open>handleDrop\<close>, \<open>handleFileSelect\<close>,
    \<open>handleButtonClick\<close>), the \<open>onload\<close> callback split at its \<open>await fetch\<close> into
    \<open>reader_onload\<close> and \<open>upload_done\<close>, and \<open>render_upload\<close>. The parent is an interface:
    its state is a type variable and \<open>onImageSelect\<close> a function on it, so the lemmas on
    \<open>upload_done\<close> hold for every parent (\<open>loading\<close> cleared, the parent called exactly on a
    JSON answer, the alert otherwise); the application's theorems use them. The preview it
    hands on is \<open>readAsDataURL\<close> of the file, which the \<open>WebApi\<close> lemma
    \<open>parse_data_url_read\<close> shows decodes back to the file's media type and bytes.
  \<^item> \<open>App\<close>: the two components composed as \<open>Index.tsx\<close> composes them, with the
    asynchronous work in flight as a list of jobs (a pending read, upload or analysis). The
    browser's event loop is the deterministic \<open>app_step\<close> on an \<open>event\<close> (a user action, or
    the completion of the \<open>i\<close>-th job with an answer the environment chooses); \<open>run\<close>
    replays a sequence of events and \<open>reachable\<close> is the inductive closure from
    \<open>init_app\<close>. The invariant \<open>app_inv\<close>, preserved by every step, gives C1, C2 and C27
    (at most one analysis in flight, exactly when \<open>isAnalyzing\<close>; preview and file agree;
    \<open>loading\<close> only with an upload pending); C4, C5 and C11 show that a click always posts
    the selected file, that every analysis can complete, and that a failed one can be
    retried; C6 that all pending work drains in a bounded number of completions and leaves
    the application quiescent; C13 that dropping an image and choosing it are the same step.
    C8, C12, C25, C26 and C28 state the findings for every state and answer, each with a
    concrete trace as witness: an analysis answer is shown beside whatever image is selected
    when it arrives (C8); a failed upload, by the network or by a body that is not JSON,
    selects nothing and reports a connection failure (C12); a non-image is accepted through
    the input and ignored on drop (C25); the upload's prediction is discarded (C26); one
    completed upload clears the shared \<open>loading\<close> flag while another is pending (C28).
  \<^item> \<open>Refinement\<close>: the specification's pipeline (section 4.3) as the inductive
    \<open>spec_step\<close> on four phases, \<open>phase_of\<close> the phase the page renders, and C3: every step
    from a reachable state is a \<open>spec_step\<close> of the phase or leaves it unchanged (a forward
    simulation with stuttering). The refinement holds for phases only: with the selected
    image added to the abstract state it fails, and C8 is the counterexample.
  \<^item> \<open>Features\<close>: the constant \<open>features\<close> array of \<open>FeaturesSection.tsx\<close> and its rendering
    as cards keyed by index. The component has no props, state or handlers.

  \<^bold>\<open>Choices of the model.\<close> Numbers are exact rationals (IEEE rounding abstracted). This
  is exact for the values the theorems print (\<open>0.92 * 100\<close> is \<open>92.00\<close> either way) but not
  for ties: \<open>(0.01005 * 100).toFixed(2)\<close> is \<open>1.01\<close> here and \<open>1.00\<close> in V8, where the
  product is the double just below \<open>1.005\<close>; no theorem here states how the printed
  confidence rounds. The fuel 400 of \<open>dec_scale\<close> exceeds the fractional digits of the shortest decimal of any double
  (at most 17 significant digits, exponent at least -324). Strings are byte lists, so the
  non-ASCII white space of \<open>trim\<close> is not modelled. Exception messages are V8's. Response
  bodies are the values handed to \<open>JSON.stringify\<close>. React state updates are applied at once;
  the handlers here never read a state they have just set, so batching does not change
  their outcome. The environment chooses every server answer independently of the request,
  which over-approximates the servers: the safety theorems hold for all answers.

  \<^bold>\<open>Not modelled.\<close> \<open>DiagnosisReport\<close> is imported by the page but absent from the repository: the
  model stops at the pair (diagnosis, image) handed to it. The Flask inference endpoint and
  the AI gateway are external services and appear only as the answers (\<open>fetch_result\<close>)
  the environment chooses. The \<open>FormData\<close> encoding of the posted file, styling and markup
  are not modelled.
\<close>

end
